theory Spec2Isabelle
  imports Main "HOL-Library.AList"
begin

section \<open>JavaScript values used by the client\<close>

text \<open>
  An optional string property (\<^verbatim>\<open>x?: string\<close>) is a \<open>string option\<close>, \<open>None\<close> being
  \<^verbatim>\<open>undefined\<close>. The client tests such properties by truthiness
  (\<^verbatim>\<open>if (request.gasPrice)\<close>, \<^verbatim>\<open>config.hdPath || "..."\<close>): \<^verbatim>\<open>undefined\<close> and the empty
  string are falsy, every other string is truthy. Strings are restricted to 8-bit
  characters.
\<close>

definition truthy :: "string option \<Rightarrow> bool" where
  "truthy s = (case s of None \<Rightarrow> False | Some t \<Rightarrow> t \<noteq> [])"

definition or_else :: "string option \<Rightarrow> string \<Rightarrow> string" where
  \<comment> \<open>\<^verbatim>\<open>s || d\<close> on an optional string\<close>
  "or_else s d = (case s of None \<Rightarrow> d | Some t \<Rightarrow> if t = [] then d else t)"

text \<open>Errors are values. The first three are raised by the client itself, with the
  messages of the source; the others come from the language and from the library or node.\<close>

datatype error =
    ProviderNotFound string
  | NetworkNotConfigured string
  | NoWalletAvailable string
  | SyntaxError string
  | TypeError string
  | External string

fun message :: "error \<Rightarrow> string" where
  "message (ProviderNotFound n) = ''Provider not found for network: '' @ n"
| "message (NetworkNotConfigured n) = ''Network not configured: '' @ n"
| "message (NoWalletAvailable what) = ''No wallet available for '' @ what"
| "message (SyntaxError m) = m"
| "message (TypeError m) = m"
| "message (External m) = m"

fun toString :: "error \<Rightarrow> string" where
  \<comment> \<open>\<^verbatim>\<open>`${error}`\<close>\<close>
  "toString (SyntaxError m) = ''SyntaxError: '' @ m"
| "toString (TypeError m) = ''TypeError: '' @ m"
| "toString e = ''Error: '' @ message e"

subsection \<open>\<^verbatim>\<open>BigInt(string)\<close>\<close>

text \<open>
  \<^verbatim>\<open>BigInt\<close> applied to a string trims white space, reads the empty string as zero, a
  signed run of decimal digits, or an unsigned run of digits after \<^verbatim>\<open>0x\<close>, \<^verbatim>\<open>0o\<close> or
  \<^verbatim>\<open>0b\<close>, and throws a SyntaxError on anything else.
\<close>

definition is_ws :: "char \<Rightarrow> bool" where
  "is_ws c = (of_char c \<in> {9, 10, 11, 12, 13, 32, 160 :: nat})"

definition trim :: "string \<Rightarrow> string" where
  "trim s = rev (dropWhile is_ws (rev (dropWhile is_ws s)))"

definition digit_val :: "char \<Rightarrow> nat option" where
  "digit_val c =
     (let n = (of_char c :: nat) in
      if 48 \<le> n \<and> n \<le> 57 then Some (n - 48)
      else if 97 \<le> n \<and> n \<le> 102 then Some (n - 87)
      else if 65 \<le> n \<and> n \<le> 70 then Some (n - 55)
      else None)"

fun digits_acc :: "nat \<Rightarrow> string \<Rightarrow> int \<Rightarrow> int option" where
  "digits_acc b [] acc = Some acc"
| "digits_acc b (c # cs) acc =
     (case digit_val c of
        None \<Rightarrow> None
      | Some d \<Rightarrow> if d < b then digits_acc b cs (acc * int b + int d) else None)"

definition parse_digits :: "nat \<Rightarrow> string \<Rightarrow> int option" where
  "parse_digits b s = (if s = [] then None else digits_acc b s 0)"

definition BigInt :: "string \<Rightarrow> error + int" where
  "BigInt s =
     (let t = trim s;
          bad = Inl (SyntaxError (''Cannot convert '' @ s @ '' to a BigInt''));
          nat_res = (\<lambda>r. case r of None \<Rightarrow> bad | Some n \<Rightarrow> Inr n)
      in if t = [] then Inr 0
         else if take 2 t = ''0x'' \<or> take 2 t = ''0X'' then nat_res (parse_digits 16 (drop 2 t))
         else if take 2 t = ''0o'' \<or> take 2 t = ''0O'' then nat_res (parse_digits 8 (drop 2 t))
         else if take 2 t = ''0b'' \<or> take 2 t = ''0B'' then nat_res (parse_digits 2 (drop 2 t))
         else if hd t = CHR ''+'' then nat_res (parse_digits 10 (tl t))
         else if hd t = CHR ''-'' then
           (case parse_digits 10 (tl t) of None \<Rightarrow> bad | Some n \<Rightarrow> Inr (- n))
         else nat_res (parse_digits 10 t))"

subsection \<open>Rendering an integer in a template literal\<close>

definition digit_char :: "int \<Rightarrow> char" where
  "digit_char d = char_of (48 + d)"

function show_nat :: "int \<Rightarrow> string" where
  \<comment> \<open>the decimal digits of a number that is not negative\<close>
  "show_nat n = (if n < 10 then [digit_char n] else show_nat (n div 10) @ [digit_char (n mod 10)])"
  by pat_completeness auto
termination
  by (relation "measure nat") auto

declare show_nat.simps [simp del]

definition show_int :: "int \<Rightarrow> string" where
  \<comment> \<open>\<^verbatim>\<open>`${n}`\<close> for an integral number below \<open>10^21\<close> in magnitude\<close>
  "show_int i = (if i < 0 then CHR ''-'' # show_nat (- i) else show_nat i)"

section \<open>Data model (types.ts)\<close>

record NetworkConfig =
  nc_name :: string
  nc_chainId :: int
  nc_rpcUrl :: string
  nc_nativeCurrency :: "(string \<times> string \<times> nat) option"
  nc_blockExplorer :: "string option"

text \<open>An object with string keys is an association list in insertion order, without
  repeated keys. (JavaScript enumerates keys that are canonical array indices first; the
  order of the networks only decides the order of the log lines.)\<close>

record EVMConfig =
  cfg_networks :: "(string \<times> NetworkConfig) list option"
  cfg_defaultNetwork :: "string option"
  cfg_privateKeys :: "string list option"
  cfg_mnemonic :: "string option"
  cfg_hdPath :: "string option"
  cfg_accountIndex :: "int option"

definition COMMON_NETWORKS :: "(string \<times> NetworkConfig) list" where
  "COMMON_NETWORKS =
    [(''mainnet'', \<lparr>nc_name = ''Ethereum Mainnet'', nc_chainId = 1,
        nc_rpcUrl = ''https://eth.llamarpc.com'',
        nc_nativeCurrency = Some (''Ether'', ''ETH'', 18),
        nc_blockExplorer = Some ''https://etherscan.io''\<rparr>),
     (''sepolia'', \<lparr>nc_name = ''Sepolia Testnet'', nc_chainId = 11155111,
        nc_rpcUrl = ''https://sepolia.infura.io/v3/'',
        nc_nativeCurrency = Some (''Sepolia Ether'', ''ETH'', 18),
        nc_blockExplorer = Some ''https://sepolia.etherscan.io''\<rparr>),
     (''polygon'', \<lparr>nc_name = ''Polygon Mainnet'', nc_chainId = 137,
        nc_rpcUrl = ''https://polygon-rpc.com'',
        nc_nativeCurrency = Some (''MATIC'', ''MATIC'', 18),
        nc_blockExplorer = Some ''https://polygonscan.com''\<rparr>),
     (''arbitrum'', \<lparr>nc_name = ''Arbitrum One'', nc_chainId = 42161,
        nc_rpcUrl = ''https://arb1.arbitrum.io/rpc'',
        nc_nativeCurrency = Some (''Ether'', ''ETH'', 18),
        nc_blockExplorer = Some ''https://arbiscan.io''\<rparr>),
     (''optimism'', \<lparr>nc_name = ''Optimism'', nc_chainId = 10,
        nc_rpcUrl = ''https://mainnet.optimism.io'',
        nc_nativeCurrency = Some (''Ether'', ''ETH'', 18),
        nc_blockExplorer = Some ''https://optimistic.etherscan.io''\<rparr>),
     (''base'', \<lparr>nc_name = ''Base'', nc_chainId = 8453,
        nc_rpcUrl = ''https://mainnet.base.org'',
        nc_nativeCurrency = Some (''Ether'', ''ETH'', 18),
        nc_blockExplorer = Some ''https://basescan.org''\<rparr>),
     (''avalanche'', \<lparr>nc_name = ''Avalanche C-Chain'', nc_chainId = 43114,
        nc_rpcUrl = ''https://api.avax.network/ext/bc/C/rpc'',
        nc_nativeCurrency = Some (''Avalanche'', ''AVAX'', 18),
        nc_blockExplorer = Some ''https://snowtrace.io''\<rparr>),
     (''bsc'', \<lparr>nc_name = ''BNB Smart Chain'', nc_chainId = 56,
        nc_rpcUrl = ''https://bsc-dataseed.binance.org'',
        nc_nativeCurrency = Some (''BNB'', ''BNB'', 18),
        nc_blockExplorer = Some ''https://bscscan.com''\<rparr>)]"

text \<open>A connection records what it was constructed from.\<close>

record provider =
  pr_rpcUrl :: string
  pr_name :: string
  pr_chainId :: int

text \<open>A signing identity: its address as the library renders it, its key, the HD path it
  was derived at (if any) and the connection it is bound to (if any).\<close>

record wallet =
  w_address :: string
  w_privateKey :: string
  w_path :: "string option"
  w_provider :: "provider option"

definition connect :: "wallet \<Rightarrow> provider \<Rightarrow> wallet" where
  \<comment> \<open>\<^verbatim>\<open>wallet.connect(provider)\<close>: the same keys on another connection\<close>
  "connect w p = w\<lparr>w_provider := Some p\<rparr>"

text \<open>
  The ethers library is not part of the repository. What the client calls of it is a
  parameter of the model: each function returns \<open>Inl\<close> where the library throws.
\<close>

text \<open>Values of type \<^verbatim>\<open>any\<close> (ABI fragments, call arguments, call results).\<close>

datatype any = Null | Str string | Num int | Bool bool | Arr "any list"

record ethers =
  JsonRpcProvider :: "string \<Rightarrow> string \<Rightarrow> int \<Rightarrow> error + provider"
  Wallet_new :: "string \<Rightarrow> error + wallet"
  Mnemonic_fromPhrase :: "string \<Rightarrow> error + string"
  HDNodeWallet_fromMnemonic :: "string \<Rightarrow> string \<Rightarrow> error + wallet"
  parseEther :: "string \<Rightarrow> error + int"
  formatEther :: "int \<Rightarrow> string"
  Contract_new :: "string \<Rightarrow> any list \<Rightarrow> error option"
  ContractFactory_new :: "any list \<Rightarrow> string \<Rightarrow> error option"

datatype level = Debug | Info | Warn | Err

type_synonym log_entry = "level \<times> string \<times> string \<times> string"

text \<open>The client object. \<^verbatim>\<open>providers\<close> is only read by key; \<^verbatim>\<open>wallets\<close> is also read in
  insertion order, so it is an association list maintained by \<open>AList.update\<close>, which
  like \<^verbatim>\<open>Map.set\<close> replaces the value of a held key in place and appends a new key.
  The calls of the logger are collected in \<open>c_log\<close>.\<close>

record client =
  c_providers :: "string \<rightharpoonup> provider"
  c_wallets :: "(string \<times> wallet) list"
  c_config :: EVMConfig
  c_currentNetwork :: string
  c_log :: "log_entry list"

definition logger :: "level \<Rightarrow> string \<Rightarrow> string \<Rightarrow> client \<Rightarrow> client" where
  "logger lv tag msg c = c\<lparr>c_log := c_log c @ [(lv, ''EVM Client'', tag, msg)]\<rparr>"

section \<open>Construction of the client\<close>

fun merge_common :: "(string \<times> NetworkConfig) list \<Rightarrow> (string \<times> NetworkConfig) list
    \<Rightarrow> (string \<times> NetworkConfig) list" where
  \<comment> \<open>the first loop of \<^verbatim>\<open>initializeProviders\<close>: \<^verbatim>\<open>if (!networks[key]) networks[key] = network\<close>\<close>
  "merge_common [] networks = networks"
| "merge_common ((key, network) # rest) networks =
     merge_common rest
       (if map_of networks key = None then networks @ [(key, network)] else networks)"

definition new_provider :: "ethers \<Rightarrow> NetworkConfig \<Rightarrow> error + provider" where
  \<comment> \<open>\<^verbatim>\<open>new ethers.JsonRpcProvider(network.rpcUrl, {name: network.name, chainId: network.chainId})\<close>\<close>
  "new_provider lib network =
     JsonRpcProvider lib (nc_rpcUrl network) (nc_name network) (nc_chainId network)"

definition create_provider :: "ethers \<Rightarrow> client \<Rightarrow> string \<times> NetworkConfig \<Rightarrow> client" where
  \<comment> \<open>the body of the second loop, with its try/catch\<close>
  "create_provider lib c kn =
     (case new_provider lib (snd kn) of
        Inr p \<Rightarrow>
          logger Debug ''Provider'' (''Initialized provider for '' @ nc_name (snd kn))
            (c\<lparr>c_providers := (c_providers c)(fst kn \<mapsto> p)\<rparr>)
      | Inl e \<Rightarrow>
          logger Err ''Provider''
            (''Failed to initialize provider for '' @ nc_name (snd kn) @ '': '' @ toString e) c)"

definition user_networks :: "EVMConfig \<Rightarrow> (string \<times> NetworkConfig) list" where
  \<comment> \<open>\<^verbatim>\<open>this.config.networks || {}\<close>\<close>
  "user_networks cfg = (case cfg_networks cfg of None \<Rightarrow> [] | Some ns \<Rightarrow> ns)"

definition merged_networks :: "EVMConfig \<Rightarrow> (string \<times> NetworkConfig) list" where
  "merged_networks cfg = merge_common COMMON_NETWORKS (user_networks cfg)"

definition initializeProviders :: "ethers \<Rightarrow> client \<Rightarrow> client" where
  "initializeProviders lib c =
     (let networks = merged_networks (c_config c);
          c1 = (case cfg_networks (c_config c) of
                  None \<Rightarrow> c
                | Some _ \<Rightarrow> c\<lparr>c_config := (c_config c)\<lparr>cfg_networks := Some networks\<rparr>\<rparr>)
      in fold (\<lambda>kn c'. create_provider lib c' kn) networks c1)"

definition getProvider :: "client \<Rightarrow> string option \<Rightarrow> error + provider" where
  "getProvider c network =
     (let networkKey = or_else network (c_currentNetwork c) in
      case c_providers c networkKey of
        None \<Rightarrow> Inl (ProviderNotFound networkKey)
      | Some p \<Rightarrow> Inr p)"

definition init_key :: "ethers \<Rightarrow> provider \<Rightarrow> client \<Rightarrow> string \<times> nat \<Rightarrow> client" where
  \<comment> \<open>the callback of \<^verbatim>\<open>privateKeys.forEach\<close>, with its try/catch\<close>
  "init_key lib p c ki =
     (case Wallet_new lib (fst ki) of
        Inr w \<Rightarrow>
          logger Debug ''Wallet''
            (''Initialized wallet '' @ show_nat (int (snd ki)) @ '': '' @ w_address w)
            (c\<lparr>c_wallets := AList.update (w_address w) (connect w p) (c_wallets c)\<rparr>)
      | Inl e \<Rightarrow>
          logger Err ''Wallet''
            (''Failed to initialize wallet from private key: '' @ toString e) c)"

definition init_keys :: "ethers \<Rightarrow> provider \<Rightarrow> string list \<Rightarrow> client \<Rightarrow> client" where
  "init_keys lib p keys c = fold (\<lambda>ki c'. init_key lib p c' ki) (zip keys [0 ..< length keys]) c"

definition hd_path :: "string \<Rightarrow> int \<Rightarrow> nat \<Rightarrow> string" where
  \<comment> \<open>\<^verbatim>\<open>`${hdPath}/${startIndex + i}`\<close>\<close>
  "hd_path hdPath startIndex i = hdPath @ ''/'' @ show_int (startIndex + int i)"

definition derive :: "ethers \<Rightarrow> string \<Rightarrow> string \<Rightarrow> error + wallet" where
  \<comment> \<open>\<^verbatim>\<open>HDNodeWallet.fromMnemonic(Mnemonic.fromPhrase(mnemonic), path)\<close>\<close>
  "derive lib phrase path =
     (case Mnemonic_fromPhrase lib phrase of
        Inl e \<Rightarrow> Inl e
      | Inr m \<Rightarrow> HDNodeWallet_fromMnemonic lib m path)"

function init_hd :: "ethers \<Rightarrow> provider \<Rightarrow> string \<Rightarrow> string \<Rightarrow> int \<Rightarrow> nat \<Rightarrow> client \<Rightarrow> client" where
  \<comment> \<open>the \<^verbatim>\<open>for\<close> loop from \<open>i\<close> on, inside the try/catch that encloses the whole loop\<close>
  "init_hd lib p phrase hdPath startIndex i c =
     (if i < 10 then
        (let path = hd_path hdPath startIndex i in
         case derive lib phrase path of
           Inl e \<Rightarrow>
             logger Err ''HD Wallet'' (''Failed to initialize HD wallet: '' @ toString e) c
         | Inr w \<Rightarrow>
             init_hd lib p phrase hdPath startIndex (Suc i)
               (logger Debug ''HD Wallet''
                  (''Initialized HD wallet '' @ show_nat (int i) @ '': '' @ w_address w
                     @ '' ('' @ path @ '')'')
                  (c\<lparr>c_wallets := AList.update (w_address w) (connect w p) (c_wallets c)\<rparr>)))
      else c)"
  by pat_completeness auto
termination
  by (relation "measure (\<lambda>(lib, p, phrase, hdPath, startIndex, i, c). 10 - i)") auto

declare init_hd.simps [simp del]

definition init_from_keys :: "ethers \<Rightarrow> provider \<Rightarrow> client \<Rightarrow> client" where
  \<comment> \<open>the first \<^verbatim>\<open>if\<close> of \<^verbatim>\<open>initializeWallets\<close>\<close>
  "init_from_keys lib p c =
     (case cfg_privateKeys (c_config c) of
        None \<Rightarrow> c
      | Some keys \<Rightarrow> if length keys > 0 then init_keys lib p keys c else c)"

definition init_from_mnemonic :: "ethers \<Rightarrow> provider \<Rightarrow> client \<Rightarrow> client" where
  \<comment> \<open>the second \<^verbatim>\<open>if\<close> of \<^verbatim>\<open>initializeWallets\<close>\<close>
  "init_from_mnemonic lib p c =
     (case cfg_mnemonic (c_config c) of
        None \<Rightarrow> c
      | Some phrase \<Rightarrow>
          if phrase = [] then c
          else init_hd lib p phrase
                 (or_else (cfg_hdPath (c_config c)) ''m/44'/60'/0'/0'')
                 (case cfg_accountIndex (c_config c) of None \<Rightarrow> 0 | Some n \<Rightarrow> n)
                 0 c)"

definition initializeWallets :: "ethers \<Rightarrow> client \<Rightarrow> error + client" where
  "initializeWallets lib c =
     (case getProvider c None of
        Inl e \<Rightarrow> Inl e
      | Inr p \<Rightarrow> Inr (init_from_mnemonic lib p (init_from_keys lib p c)))"

definition new_client :: "EVMConfig \<Rightarrow> client" where
  \<comment> \<open>the fields as the constructor sets them before initializing\<close>
  "new_client config =
     \<lparr>c_providers = Map.empty, c_wallets = [], c_config = config,
      c_currentNetwork = or_else (cfg_defaultNetwork config) ''mainnet'',
      c_log = []\<rparr>"

definition constructor :: "ethers \<Rightarrow> EVMConfig \<Rightarrow> error + client" where
  "constructor lib config = initializeWallets lib (initializeProviders lib (new_client config))"

section \<open>Network switch and signer lookup\<close>

definition rebind :: "provider \<Rightarrow> (string \<times> wallet) list \<Rightarrow> (string \<times> wallet) list" where
  \<comment> \<open>\<^verbatim>\<open>for (const [address, wallet] of this.wallets.entries())
       this.wallets.set(address, wallet.connect(provider))\<close>\<close>
  "rebind p ws = fold (\<lambda>aw ws'. AList.update (fst aw) (connect (snd aw) p) ws') ws ws"

definition switchNetwork :: "client \<Rightarrow> string \<Rightarrow> (error + unit) \<times> client" where
  \<comment> \<open>the outcome of the call and the client after it\<close>
  "switchNetwork c network =
     (if c_providers c network = None then (Inl (NetworkNotConfigured network), c)
      else
        (let c1 = logger Info ''Network'' (''Switched to network: '' @ network)
                    (c\<lparr>c_currentNetwork := network\<rparr>)
         in case getProvider c1 None of
              Inl e \<Rightarrow> (Inl e, c1)
            | Inr p \<Rightarrow> (Inr (), c1\<lparr>c_wallets := rebind p (c_wallets c1)\<rparr>)))"

definition wallet_for :: "client \<Rightarrow> string option \<Rightarrow> wallet option" where
  \<comment> \<open>\<^verbatim>\<open>from ? this.wallets.get(from) : Array.from(this.wallets.values())[0]\<close>, the
     expression by which every signing operation picks its wallet\<close>
  "wallet_for c from =
     (if truthy from then
        (case from of None \<Rightarrow> None | Some a \<Rightarrow> map_of (c_wallets c) a)
      else
        (case c_wallets c of [] \<Rightarrow> None | aw # _ \<Rightarrow> Some (snd aw)))"

section \<open>Transactions\<close>

record TransactionRequest =
  rq_to :: string
  rq_from :: "string option"
  rq_value :: "string option"
  rq_data :: "string option"
  rq_gasLimit :: "string option"
  rq_gasPrice :: "string option"
  rq_maxFeePerGas :: "string option"
  rq_maxPriorityFeePerGas :: "string option"
  rq_nonce :: "int option"
  rq_chainId :: "int option"

text \<open>The transaction object handed to the library (\<^verbatim>\<open>ethers.TransactionRequest\<close>); a
  property that was never assigned is \<open>None\<close>.\<close>

record ethers_tx =
  tx_to :: string
  tx_from :: "string option"
  tx_value :: int
  tx_data :: string
  tx_nonce :: "int option"
  tx_chainId :: "int option"
  tx_gasLimit :: "int option"
  tx_gasPrice :: "int option"
  tx_maxFeePerGas :: "int option"
  tx_maxPriorityFeePerGas :: "int option"

record receipt =
  rc_blockNumber :: int
  rc_blockHash :: string
  rc_status :: "int option"

text \<open>What \<^verbatim>\<open>wallet.sendTransaction\<close> resolves to, with the outcome of its \<^verbatim>\<open>wait()\<close>.\<close>

record tx_response =
  rs_hash :: string
  rs_from :: string
  rs_to :: "string option"
  rs_value :: int
  rs_data :: string
  rs_gasLimit :: int
  rs_gasPrice :: "int option"
  rs_maxFeePerGas :: "int option"
  rs_maxPriorityFeePerGas :: "int option"
  rs_nonce :: int
  rs_chainId :: int
  rs_wait :: "error + receipt option"

record TransactionResponse =
  tr_hash :: string
  tr_from :: string
  tr_to :: string
  tr_value :: string
  tr_data :: string
  tr_gasLimit :: string
  tr_gasPrice :: "string option"
  tr_maxFeePerGas :: "string option"
  tr_maxPriorityFeePerGas :: "string option"
  tr_nonce :: int
  tr_chainId :: int
  tr_blockNumber :: "int option"
  tr_blockHash :: "string option"
  tr_status :: "int option"

record fee_data =
  fd_gasPrice :: "int option"
  fd_maxFeePerGas :: "int option"
  fd_maxPriorityFeePerGas :: "int option"

record GasEstimation =
  ge_gasLimit :: string
  ge_gasPrice :: "string option"
  ge_maxFeePerGas :: "string option"
  ge_maxPriorityFeePerGas :: "string option"
  ge_estimatedCost :: string

record resolver =
  rv_getAddress :: "error + string"
  rv_getAvatar :: "error + string option"

record contract_tx =
  cx_hash :: string
  cx_from :: string
  cx_to :: string
  cx_value :: int
  cx_data :: string
  cx_wait :: "error + receipt option"

record tx_options =
  to_value :: "int option"
  to_gasLimit :: "int option"

record deployment =
  dp_hash :: "string option"
  dp_waitForDeployment :: "error option"
  dp_getAddress :: "error + string"

text \<open>
  The answers of the remote node, reached through a connection or a connected wallet,
  are the second parameter of the model: \<open>Inl\<close> is a rejected promise.
\<close>

record node =
  n_sendTransaction :: "wallet \<Rightarrow> ethers_tx \<Rightarrow> error + tx_response"
  n_estimateGas :: "provider \<Rightarrow> ethers_tx \<Rightarrow> error + int"
  n_getFeeData :: "provider \<Rightarrow> error + fee_data"
  n_resolveName :: "provider \<Rightarrow> string \<Rightarrow> error + string option"
  n_getResolver :: "provider \<Rightarrow> string \<Rightarrow> error + resolver option"
  n_call :: "provider \<Rightarrow> string \<Rightarrow> any list \<Rightarrow> string \<Rightarrow> any list \<Rightarrow> error + any"
  n_send :: "wallet \<Rightarrow> string \<Rightarrow> any list \<Rightarrow> string \<Rightarrow> any list \<Rightarrow> tx_options
               \<Rightarrow> error + contract_tx"
  n_deploy :: "wallet \<Rightarrow> any list \<Rightarrow> string \<Rightarrow> any list \<Rightarrow> int option \<Rightarrow> error + deployment"

definition opt_BigInt :: "string option \<Rightarrow> error + int option" where
  \<comment> \<open>\<^verbatim>\<open>if (s) x = BigInt(s)\<close>: nothing is assigned for a falsy string\<close>
  "opt_BigInt s =
     (if truthy s then
        (case s of None \<Rightarrow> Inr None
         | Some t \<Rightarrow> (case BigInt t of Inl e \<Rightarrow> Inl e | Inr n \<Rightarrow> Inr (Some n)))
      else Inr None)"

definition ether_value :: "ethers \<Rightarrow> string option \<Rightarrow> error + int" where
  \<comment> \<open>\<^verbatim>\<open>value ? ethers.parseEther(value) : 0\<close>\<close>
  "ether_value lib v =
     (if truthy v then (case v of None \<Rightarrow> Inr 0 | Some t \<Rightarrow> parseEther lib t) else Inr 0)"

definition build_tx :: "ethers \<Rightarrow> TransactionRequest \<Rightarrow> error + ethers_tx" where
  \<comment> \<open>\<^verbatim>\<open>sendTransaction\<close>, from "Build transaction" to the end of "Set gas parameters"\<close>
  "build_tx lib request =
     (case ether_value lib (rq_value request) of
        Inl e \<Rightarrow> Inl e
      | Inr v \<Rightarrow>
        (let tx = \<lparr>tx_to = rq_to request, tx_from = None, tx_value = v,
                   tx_data = or_else (rq_data request) ''0x'',
                   tx_nonce = rq_nonce request, tx_chainId = rq_chainId request,
                   tx_gasLimit = None, tx_gasPrice = None,
                   tx_maxFeePerGas = None, tx_maxPriorityFeePerGas = None\<rparr>
         in case opt_BigInt (rq_gasLimit request) of
              Inl e \<Rightarrow> Inl e
            | Inr gl \<Rightarrow>
              (let tx1 = tx\<lparr>tx_gasLimit := gl\<rparr> in
               if truthy (rq_maxFeePerGas request) \<and> truthy (rq_maxPriorityFeePerGas request)
               then
                 (case opt_BigInt (rq_maxFeePerGas request) of
                    Inl e \<Rightarrow> Inl e
                  | Inr mf \<Rightarrow>
                    (case opt_BigInt (rq_maxPriorityFeePerGas request) of
                       Inl e \<Rightarrow> Inl e
                     | Inr mp \<Rightarrow>
                         Inr (tx1\<lparr>tx_maxFeePerGas := mf, tx_maxPriorityFeePerGas := mp\<rparr>)))
               else if truthy (rq_gasPrice request) then
                 (case opt_BigInt (rq_gasPrice request) of
                    Inl e \<Rightarrow> Inl e
                  | Inr gp \<Rightarrow> Inr (tx1\<lparr>tx_gasPrice := gp\<rparr>))
               else Inr tx1)))"

definition opt_show :: "int option \<Rightarrow> string option" where
  \<comment> \<open>\<^verbatim>\<open>x?.toString()\<close>\<close>
  "opt_show x = map_option show_int x"

definition normalize :: "tx_response \<Rightarrow> receipt option \<Rightarrow> TransactionResponse" where
  "normalize r rc =
     \<lparr>tr_hash = rs_hash r, tr_from = rs_from r, tr_to = or_else (rs_to r) [],
      tr_value = show_int (rs_value r), tr_data = rs_data r,
      tr_gasLimit = show_int (rs_gasLimit r),
      tr_gasPrice = opt_show (rs_gasPrice r),
      tr_maxFeePerGas = opt_show (rs_maxFeePerGas r),
      tr_maxPriorityFeePerGas = opt_show (rs_maxPriorityFeePerGas r),
      tr_nonce = rs_nonce r, tr_chainId = rs_chainId r,
      tr_blockNumber = map_option rc_blockNumber rc,
      tr_blockHash = map_option rc_blockHash rc,
      tr_status = (case rc of None \<Rightarrow> None | Some x \<Rightarrow> rc_status x)\<rparr>"

definition sendTransaction ::
  "ethers \<Rightarrow> node \<Rightarrow> client \<Rightarrow> TransactionRequest \<Rightarrow> ethers_tx option \<times> (error + TransactionResponse)" where
  \<comment> \<open>the transaction handed to \<^verbatim>\<open>wallet.sendTransaction\<close> (\<open>None\<close> when the call fails
     before submitting) and the outcome of the call\<close>
  "sendTransaction lib nd c request =
     (case getProvider c None of
        Inl e \<Rightarrow> (None, Inl e)
      | Inr provider \<Rightarrow>
        (case wallet_for c (rq_from request) of
           None \<Rightarrow> (None, Inl (NoWalletAvailable ''sending transaction''))
         | Some w \<Rightarrow>
           (case build_tx lib request of
              Inl e \<Rightarrow> (None, Inl e)
            | Inr tx \<Rightarrow>
              (Some tx,
               case n_sendTransaction nd w tx of
                 Inl e \<Rightarrow> Inl e
               | Inr txResponse \<Rightarrow>
                 (case rs_wait txResponse of
                    Inl e \<Rightarrow> Inl e
                  | Inr rc \<Rightarrow> Inr (normalize txResponse rc))))))"

definition truthy_big :: "int option \<Rightarrow> bool" where
  \<comment> \<open>truthiness of \<^verbatim>\<open>bigint | null\<close>: \<^verbatim>\<open>null\<close> and \<^verbatim>\<open>0n\<close> are falsy\<close>
  "truthy_big x = (case x of None \<Rightarrow> False | Some n \<Rightarrow> n \<noteq> 0)"

definition estimateGas :: "ethers \<Rightarrow> node \<Rightarrow> client \<Rightarrow> TransactionRequest \<Rightarrow> error + GasEstimation" where
  "estimateGas lib nd c request =
     (case getProvider c None of
        Inl e \<Rightarrow> Inl e
      | Inr provider \<Rightarrow>
        (case ether_value lib (rq_value request) of
           Inl e \<Rightarrow> Inl e
         | Inr v \<Rightarrow>
           (let tx = \<lparr>tx_to = rq_to request, tx_from = rq_from request, tx_value = v,
                      tx_data = or_else (rq_data request) ''0x'',
                      tx_nonce = None, tx_chainId = None,
                      tx_gasLimit = None, tx_gasPrice = None,
                      tx_maxFeePerGas = None, tx_maxPriorityFeePerGas = None\<rparr>
            in case n_estimateGas nd provider tx of
                 Inl e \<Rightarrow> Inl e
               | Inr gasLimit \<Rightarrow>
                 (case n_getFeeData nd provider of
                    Inl e \<Rightarrow> Inl e
                  | Inr feeData \<Rightarrow>
                    (if truthy_big (fd_maxFeePerGas feeData)
                        \<and> truthy_big (fd_maxPriorityFeePerGas feeData) then
                       Inr \<lparr>ge_gasLimit = show_int gasLimit, ge_gasPrice = None,
                            ge_maxFeePerGas = opt_show (fd_maxFeePerGas feeData),
                            ge_maxPriorityFeePerGas = opt_show (fd_maxPriorityFeePerGas feeData),
                            ge_estimatedCost =
                              formatEther lib
                                (gasLimit * (case fd_maxFeePerGas feeData of None \<Rightarrow> 0 | Some m \<Rightarrow> m))\<rparr>
                     else if truthy_big (fd_gasPrice feeData) then
                       Inr \<lparr>ge_gasLimit = show_int gasLimit,
                            ge_gasPrice = opt_show (fd_gasPrice feeData),
                            ge_maxFeePerGas = None, ge_maxPriorityFeePerGas = None,
                            ge_estimatedCost =
                              formatEther lib
                                (gasLimit * (case fd_gasPrice feeData of None \<Rightarrow> 0 | Some g \<Rightarrow> g))\<rparr>
                     else
                       Inr \<lparr>ge_gasLimit = show_int gasLimit, ge_gasPrice = None,
                            ge_maxFeePerGas = None, ge_maxPriorityFeePerGas = None,
                            ge_estimatedCost = ''0''\<rparr>)))))"

section \<open>Name resolution\<close>

record ENSInfo =
  ens_name :: "string option"
  ens_address :: "string option"
  ens_resolver :: "string option"
  ens_avatar :: "string option"

definition or_undefined :: "string option \<Rightarrow> string option" where
  \<comment> \<open>\<^verbatim>\<open>address || undefined\<close>\<close>
  "or_undefined s = (if truthy s then s else None)"

text \<open>Every connection of the pool is a \<^verbatim>\<open>JsonRpcProvider\<close>, which has a \<^verbatim>\<open>getResolver\<close>
  method, so the optional call \<^verbatim>\<open>getResolver?.(name)\<close> is a call.\<close>

definition resolveENS :: "node \<Rightarrow> client \<Rightarrow> string \<Rightarrow> error + ENSInfo" where
  "resolveENS nd c name =
     (case getProvider c None of
        Inl e \<Rightarrow> Inl e
      | Inr provider \<Rightarrow>
        (case n_resolveName nd provider name of
           Inl e \<Rightarrow> Inl e
         | Inr address \<Rightarrow>
           (case n_getResolver nd provider name of
              Inl e \<Rightarrow> Inl e
            | Inr res \<Rightarrow>
              (let info = \<lparr>ens_name = Some name, ens_address = or_undefined address,
                           ens_resolver = None, ens_avatar = None\<rparr>
               in case res of
                    None \<Rightarrow> Inr info
                  | Some r \<Rightarrow>
                    (case rv_getAddress r of
                       Inl e \<Rightarrow> Inl e
                     | Inr a \<Rightarrow>
                       (let info1 = info\<lparr>ens_resolver := Some a\<rparr> in
                        case rv_getAvatar r of
                          Inl e \<Rightarrow> Inr info1
                        | Inr avatar \<Rightarrow>
                            if truthy avatar then Inr (info1\<lparr>ens_avatar := avatar\<rparr>)
                            else Inr info1))))))"

section \<open>Contracts\<close>












section \<open>A stand-in for the library and the node\<close>

text \<open>
  The theorems below hold for every library and every node. Where a closed instance is
  needed, the library is this stand-in: it takes any endpoint string, refuses a chain id
  outside the safe-integer range (as the library's conversion of a number to a bigint
  does), knows the key pairs of one well-known development seed phrase at the ten default
  paths, and converts between ether and wei as decimal fixed point with 18 places.
\<close>

definition is_digit :: "char \<Rightarrow> bool" where
  "is_digit c = (48 \<le> (of_char c :: nat) \<and> (of_char c :: nat) \<le> 57)"

definition sample_parseEther :: "string \<Rightarrow> error + int" where
  "sample_parseEther s =
     (let neg = (s \<noteq> [] \<and> hd s = CHR ''-'');
          r = (if neg then tl s else s);
          whole = takeWhile is_digit r;
          r1 = dropWhile is_digit r;
          r2 = (if r1 \<noteq> [] \<and> hd r1 = CHR ''.'' then tl r1 else r1);
          frac = takeWhile is_digit r2;
          rest = dropWhile is_digit r2
      in if rest \<noteq> [] \<or> (whole = [] \<and> frac = []) then
           Inl (External ''invalid FixedNumber string value'')
         else if \<not> list_all (\<lambda>c. c = CHR ''0'') (drop 18 frac) then
           Inl (External ''too many decimals for format'')
         else
           (case digits_acc 10 (whole @ take 18 (frac @ replicate 18 (CHR ''0''))) 0 of
              None \<Rightarrow> Inl (External ''invalid FixedNumber string value'')
            | Some n \<Rightarrow> Inr (if neg then - n else n)))"

definition sample_formatEther :: "int \<Rightarrow> string" where
  "sample_formatEther v =
     (let a = \<bar>v\<bar>;
          q = a div 10 ^ 18;
          r = a mod 10 ^ 18;
          digits = show_nat r;
          padded = replicate (18 - length digits) (CHR ''0'') @ digits;
          frac = rev (dropWhile (\<lambda>c. c = CHR ''0'') (rev padded))
      in (if v < 0 then ''-'' else []) @ show_nat q @ ''.'' @ (if frac = [] then ''0'' else frac))"

definition sample_phrase :: string where
  "sample_phrase = ''test test test test test test test test test test test junk''"

definition sample_accounts :: "(string \<times> string) list" where
  \<comment> \<open>address and private key at the default paths 0 to 9 of \<open>sample_phrase\<close>\<close>
  "sample_accounts =
    [(''0xf39Fd6e51aad88F6F4ce6aB8827279cffFb92266'',
      ''0xac0974bec39a17e36ba4a6b4d238ff944bacb478cbed5efcae784d7bf4f2ff80''),
     (''0x70997970C51812dc3A010C7d01b50e0d17dc79C8'',
      ''0x59c6995e998f97a5a0044966f0945389dc9e86dae88c7a8412f4603b6b78690d''),
     (''0x3C44CdDdB6a900fa2b585dd299e03d12FA4293BC'',
      ''0x5de4111afa1a4b94908f83103eb1f1706367c2e68ca870fc3fb9a804cdab365a''),
     (''0x90F79bf6EB2c4f870365E785982E1f101E93b906'',
      ''0x7c852118294e51e653712a81e05800f419141751be58f605c371e15141b007a6''),
     (''0x15d34AAf54267DB7D7c367839AAf71A00a2C6A65'',
      ''0x47e179ec197488593b187f80a00eb0da91f1b9d0b13f8733639f19c30a34926a''),
     (''0x9965507D1a55bcC2695C58ba16FB37d819B0A4dc'',
      ''0x8b3a350cf5c34c9194ca85829a2df0ec3153be0318b5e2d3348e872092edffba''),
     (''0x976EA74026E726554dB657fA54763abd0C3a0aa9'',
      ''0x92db14e403b83dfe3df233f83dfa3a0d7096f21ca9b0d6d6b8d88b2b4ec1564e''),
     (''0x14dC79964da2C08b23698B3D3cc7Ca32193d9955'',
      ''0x4bbbf85ce3377467afe5d46f804f221813b2bb87f24d81f60f1fcdbf7cbf4356''),
     (''0x23618e81E3f5cdF7f54C3d65f7FBc0aBf5B21E8f'',
      ''0xdbda1821b80551c9d65939329250298aa3472ba22feea921c0cf5d620ea67b97''),
     (''0xa0Ee7A142d267C1f36714E4a8F75612F20a79720'',
      ''0x2a871d0798f97d79848a013d4936a73bf4cc922c825d33c1cf7073dff6d409c6'')]"

definition sample_wallet :: "string \<times> string \<Rightarrow> string option \<Rightarrow> wallet" where
  "sample_wallet ak path =
     \<lparr>w_address = fst ak, w_privateKey = snd ak, w_path = path, w_provider = None\<rparr>"

definition sample_Wallet_new :: "string \<Rightarrow> error + wallet" where
  "sample_Wallet_new key =
     (case find (\<lambda>ak. snd ak = key) sample_accounts of
        None \<Rightarrow> Inl (External ''invalid private key'')
      | Some ak \<Rightarrow> Inr (sample_wallet ak None))"

definition sample_fromMnemonic :: "string \<Rightarrow> string \<Rightarrow> error + wallet" where
  "sample_fromMnemonic m path =
     (case find (\<lambda>i. path = hd_path ''m/44'/60'/0'/0'' 0 i) [0 ..< 10] of
        None \<Rightarrow> Inl (External ''invalid path'')
      | Some i \<Rightarrow> Inr (sample_wallet (sample_accounts ! i) (Some path)))"

definition sample_ethers :: ethers where
  "sample_ethers =
     \<lparr>JsonRpcProvider = (\<lambda>url name chainId.
         if chainId < - 9007199254740991 \<or> 9007199254740991 < chainId
         then Inl (External ''overflow'')
         else Inr \<lparr>pr_rpcUrl = url, pr_name = name, pr_chainId = chainId\<rparr>),
      Wallet_new = sample_Wallet_new,
      Mnemonic_fromPhrase = (\<lambda>phrase.
         if phrase = sample_phrase then Inr phrase else Inl (External ''invalid mnemonic'')),
      HDNodeWallet_fromMnemonic = sample_fromMnemonic,
      parseEther = sample_parseEther,
      formatEther = sample_formatEther,
      Contract_new = (\<lambda>address abi. None),
      ContractFactory_new = (\<lambda>abi bytecode. None)\<rparr>"

definition sample_provider :: "string \<Rightarrow> provider" where
  "sample_provider n =
     \<lparr>pr_rpcUrl = ''https://rpc.example/'' @ n, pr_name = n, pr_chainId = 1\<rparr>"

definition empty_config :: EVMConfig where
  "empty_config =
     \<lparr>cfg_networks = None, cfg_defaultNetwork = None, cfg_privateKeys = None,
      cfg_mnemonic = None, cfg_hdPath = None, cfg_accountIndex = None\<rparr>"

definition sample_client :: client where
  \<comment> \<open>two connections, the cursor on the first, two identities bound to it\<close>
  "sample_client =
     \<lparr>c_providers = [''mainnet'' \<mapsto> sample_provider ''mainnet'',
                     ''polygon'' \<mapsto> sample_provider ''polygon''],
      c_wallets = map (\<lambda>ak. (fst ak, connect (sample_wallet ak None) (sample_provider ''mainnet'')))
                    (take 2 sample_accounts),
      c_config = empty_config,
      c_currentNetwork = ''mainnet'', c_log = []\<rparr>"

definition overflowing_network :: "string \<Rightarrow> NetworkConfig" where
  \<comment> \<open>a descriptor whose chain id, \<open>2^53\<close>, is beyond the safe-integer range: the
     library refuses to turn it into the network's chain id and the constructor throws\<close>
  "overflowing_network name =
     \<lparr>nc_name = name, nc_chainId = 9007199254740992, nc_rpcUrl = ''http://127.0.0.1:8545'',
      nc_nativeCurrency = None, nc_blockExplorer = None\<rparr>"

definition bad_local_config :: EVMConfig where
  \<comment> \<open>an additional network whose chain id overflows; the default network is untouched\<close>
  "bad_local_config =
     empty_config\<lparr>cfg_networks := Some [(''local'', overflowing_network ''Local'')]\<rparr>"

definition unconfigured_default_config :: EVMConfig where
  \<comment> \<open>the default network is a name that no descriptor, built-in or supplied, carries\<close>
  "unconfigured_default_config = empty_config\<lparr>cfg_defaultNetwork := Some ''goerli''\<rparr>"

section \<open>Auxiliary notions for the statements\<close>

fun oks :: "(error + 'a) list \<Rightarrow> 'a list" where
  \<comment> \<open>the results before the first failure\<close>
  "oks [] = []"
| "oks (Inl e # rs) = []"
| "oks (Inr x # rs) = x # oks rs"

definition insert_wallets :: "provider \<Rightarrow> wallet list \<Rightarrow> (string \<times> wallet) list \<Rightarrow> (string \<times> wallet) list" where
  \<comment> \<open>\<^verbatim>\<open>this.wallets.set(wallet.address, wallet)\<close> for each of the wallets in turn, each
     connected to \<open>p\<close>\<close>
  "insert_wallets p ws table = fold (\<lambda>w t. AList.update (w_address w) (connect w p) t) ws table"

definition spec_hd_paths :: "string option \<Rightarrow> int option \<Rightarrow> string list" where
  \<comment> \<open>the specification's paths: \<open>hdPath/(accountIndex + i)\<close> for \<open>i\<close> in \<open>[0,10)\<close>, with
     \<open>hdPath\<close> defaulting to \<open>m/44'/60'/0'/0\<close> and \<open>accountIndex\<close> to 0 (an empty
     path setting is no setting, as in the sample environment file)\<close>
  "spec_hd_paths hdPath accountIndex =
     map (\<lambda>i. or_else hdPath ''m/44'/60'/0'/0'' @ ''/''
                @ show_int ((case accountIndex of None \<Rightarrow> 0 | Some a \<Rightarrow> a) + int i))
       [0 ..< 10]"

definition key_step :: "ethers \<Rightarrow> provider \<Rightarrow> string \<Rightarrow> (string \<times> wallet) list \<Rightarrow> (string \<times> wallet) list" where
  \<comment> \<open>what one raw key does to the identity table\<close>
  "key_step lib p k t =
     (case Wallet_new lib k of
        Inl e \<Rightarrow> t
      | Inr w \<Rightarrow> AList.update (w_address w) (connect w p) t)"

definition sample_hd_wallet :: "nat \<Rightarrow> wallet" where
  \<comment> \<open>what the stand-in library derives at position \<open>j\<close> of the default path\<close>
  "sample_hd_wallet j =
     sample_wallet (sample_accounts ! j) (Some (hd_path ''m/44'/60'/0'/0'' 0 j))"

definition wallet_client :: "EVMConfig \<Rightarrow> client" where
  \<comment> \<open>a client with connections and no identity yet, configured by \<open>cfg\<close>\<close>
  "wallet_client cfg = sample_client\<lparr>c_wallets := [], c_config := cfg\<rparr>"

definition keys_config :: EVMConfig where
  \<comment> \<open>a malformed raw key followed by a well-formed one\<close>
  "keys_config =
     empty_config\<lparr>cfg_privateKeys := Some [''not a key'',
        ''0x59c6995e998f97a5a0044966f0945389dc9e86dae88c7a8412f4603b6b78690d'']\<rparr>"

definition hd_config :: EVMConfig where
  \<comment> \<open>the seed phrase alone: default path, default index\<close>
  "hd_config = empty_config\<lparr>cfg_mnemonic := Some sample_phrase\<rparr>"

definition hd5_config :: EVMConfig where
  \<comment> \<open>the seed phrase from index 5: the stand-in library fails at the sixth position\<close>
  "hd5_config = empty_config\<lparr>cfg_mnemonic := Some sample_phrase, cfg_accountIndex := Some 5\<rparr>"

definition bad_phrase_config :: EVMConfig where
  \<comment> \<open>a phrase that is no mnemonic\<close>
  "bad_phrase_config = empty_config\<lparr>cfg_mnemonic := Some ''abandon''\<rparr>"

definition hex_lower :: "char \<Rightarrow> char" where
  \<comment> \<open>the hexadecimal letters \<open>A\<close> to \<open>F\<close> in lower case, every other character as it is\<close>
  "hex_lower ch =
     (if 65 \<le> (of_char ch :: nat) \<and> (of_char ch :: nat) \<le> 70
      then char_of ((of_char ch :: nat) + 32) else ch)"

definition same_but_hex_case :: "string \<Rightarrow> string \<Rightarrow> bool" where
  \<comment> \<open>two addresses that differ at most in the case of their hexadecimal letters\<close>
  "same_but_hex_case a b = (map hex_lower a = map hex_lower b)"

definition decimal :: "string \<Rightarrow> bool" where
  \<comment> \<open>a non-empty run of decimal digits\<close>
  "decimal s = (s \<noteq> [] \<and> list_all is_digit s)"

definition parses :: "string option \<Rightarrow> bool" where
  \<comment> \<open>an optional numeric string that \<^verbatim>\<open>BigInt\<close> accepts when it is supplied\<close>
  "parses s = (case s of None \<Rightarrow> True | Some t \<Rightarrow> \<not> isl (BigInt t))"

definition sample_receipt :: receipt where
  "sample_receipt =
     \<lparr>rc_blockNumber = 19000000,
      rc_blockHash = ''0x5f2c1e6d3a4b7c8d9e0f1a2b3c4d5e6f708192a3b4c5d6e7f8091a2b3c4d5e6f'',
      rc_status = Some 1\<rparr>"

definition sample_node :: node where
  \<comment> \<open>a node that accepts every transaction, quotes fixed fees, and resolves names; the
     resolver it returns has no avatar to give\<close>
  "sample_node =
     \<lparr>n_sendTransaction = (\<lambda>w tx. Inr
         \<lparr>rs_hash = ''0x9b1f0a6c2d3e4f5061728394a5b6c7d8e9f00112233445566778899aabbccdde'',
          rs_from = w_address w, rs_to = Some (tx_to tx), rs_value = tx_value tx,
          rs_data = tx_data tx,
          rs_gasLimit = (case tx_gasLimit tx of None \<Rightarrow> 21000 | Some g \<Rightarrow> g),
          rs_gasPrice = tx_gasPrice tx, rs_maxFeePerGas = tx_maxFeePerGas tx,
          rs_maxPriorityFeePerGas = tx_maxPriorityFeePerGas tx,
          rs_nonce = (case tx_nonce tx of None \<Rightarrow> 0 | Some n \<Rightarrow> n),
          rs_chainId = 1, rs_wait = Inr (Some sample_receipt)\<rparr>),
      n_estimateGas = (\<lambda>p tx. Inr 21000),
      n_getFeeData = (\<lambda>p. Inr \<lparr>fd_gasPrice = Some 20000000000,
                                fd_maxFeePerGas = Some 40000000000,
                                fd_maxPriorityFeePerGas = Some 1000000000\<rparr>),
      n_resolveName = (\<lambda>p name. Inr (Some ''0xd8dA6BF26964aF9D7eEd9e03E53415D37aA96045'')),
      n_getResolver = (\<lambda>p name. Inr (Some
         \<lparr>rv_getAddress = Inr ''0x231b0Ee14048e9dCcD1d247744d114a4EB5E8E63'',
          rv_getAvatar = Inl (External ''missing revert data'')\<rparr>)),
      n_call = (\<lambda>p address abi method params. Inl (External ''execution reverted'')),
      n_send = (\<lambda>w address abi method params options. Inl (External ''execution reverted'')),
      n_deploy = (\<lambda>w abi bytecode params gasLimit. Inr
         \<lparr>dp_hash = Some ''0x4e3a1b2c5d6f708192a3b4c5d6e7f8091a2b3c4d5e6f708192a3b4c5d6e7f809'',
          dp_waitForDeployment = None,
          dp_getAddress = Inr ''0x5FbDB2315678afecb367f032d93F642f64180aa3''\<rparr>)\<rparr>"

definition no_resolver_node :: node where
  \<comment> \<open>the same node, except that looking the resolver up is rejected\<close>
  "no_resolver_node =
     sample_node\<lparr>n_getResolver := (\<lambda>p name. Inl (External ''could not detect network''))\<rparr>"

definition sample_request :: TransactionRequest where
  \<comment> \<open>a transfer of 0.1 ether with no sender and no fee setting\<close>
  "sample_request =
     \<lparr>rq_to = ''0x70997970C51812dc3A010C7d01b50e0d17dc79C8'', rq_from = None,
      rq_value = Some ''0.1'', rq_data = None, rq_gasLimit = None, rq_gasPrice = None,
      rq_maxFeePerGas = None, rq_maxPriorityFeePerGas = None,
      rq_nonce = None, rq_chainId = None\<rparr>"

definition both_fees_request :: TransactionRequest where
  \<comment> \<open>the request of the specification's test: a legacy price and the fee pair together\<close>
  "both_fees_request =
     sample_request\<lparr>rq_gasPrice := Some ''5'', rq_maxFeePerGas := Some ''10'',
                    rq_maxPriorityFeePerGas := Some ''1''\<rparr>"

definition lower_from_request :: TransactionRequest where
  \<comment> \<open>the sender is the first identity of \<open>sample_client\<close>, written in lower case\<close>
  "lower_from_request =
     sample_request\<lparr>rq_from := Some ''0xf39fd6e51aad88f6f4ce6ab8827279cfffb92266''\<rparr>"



definition legacy_request :: TransactionRequest where
  \<comment> \<open>the same transfer with a legacy price only\<close>
  "legacy_request = sample_request\<lparr>rq_gasPrice := Some ''5''\<rparr>"

definition sample_tx :: ethers_tx where
  \<comment> \<open>what \<open>sample_request\<close> becomes: 0.1 ether in wei, empty data, no fee field\<close>
  "sample_tx =
     \<lparr>tx_to = ''0x70997970C51812dc3A010C7d01b50e0d17dc79C8'', tx_from = None,
      tx_value = 100000000000000000, tx_data = ''0x'', tx_nonce = None,
      tx_chainId = None, tx_gasLimit = None, tx_gasPrice = None,
      tx_maxFeePerGas = None, tx_maxPriorityFeePerGas = None\<rparr>"

definition keyed_by_address :: "(string \<times> wallet) list \<Rightarrow> bool" where
  \<comment> \<open>the identity table as a \<^verbatim>\<open>Map\<close> filled by \<^verbatim>\<open>set(wallet.address, wallet)\<close>: no key
     twice, every identity under its own address\<close>
  "keyed_by_address ws = (distinct (map fst ws) \<and> list_all (\<lambda>aw. fst aw = w_address (snd aw)) ws)"

section \<open>Network switch\<close>

lemma update_fresh_prefix:
  "k \<notin> fst ` set pre \<Longrightarrow> AList.update k v (pre @ (k, u) # xs) = pre @ (k, v) # xs"
  by (induction pre) auto

lemma rebind_fold:
  "distinct (map fst (pre @ xs)) \<Longrightarrow>
   fold (\<lambda>aw ws'. AList.update (fst aw) (connect (snd aw) p) ws') xs (pre @ xs)
     = pre @ map (\<lambda>aw. (fst aw, connect (snd aw) p)) xs"
proof (induction xs arbitrary: pre)
  case Nil
  then show ?case by simp
next
  case (Cons x xs)
  obtain k u where x: "x = (k, u)" by (cases x)
  from Cons.prems have fresh: "k \<notin> fst ` set pre" by (auto simp: x)
  have d: "distinct (map fst ((pre @ [(k, connect u p)]) @ xs))"
    using Cons.prems by (simp add: x)
  have "fold (\<lambda>aw ws'. AList.update (fst aw) (connect (snd aw) p) ws') (x # xs) (pre @ x # xs)
      = fold (\<lambda>aw ws'. AList.update (fst aw) (connect (snd aw) p) ws') xs
          ((pre @ [(k, connect u p)]) @ xs)"
    using update_fresh_prefix [OF fresh] by (simp add: x)
  also have "\<dots> = (pre @ [(k, connect u p)]) @ map (\<lambda>aw. (fst aw, connect (snd aw) p)) xs"
    by (rule Cons.IH [OF d])
  finally show ?case by (simp add: x)
qed

lemma rebind_map:
  "distinct (map fst ws) \<Longrightarrow> rebind p ws = map (\<lambda>aw. (fst aw, connect (snd aw) p)) ws"
  using rebind_fold [of "[]" ws p] by (simp add: rebind_def)

lemma getProvider_current:
  "getProvider c None =
     (case c_providers c (c_currentNetwork c) of
        None \<Rightarrow> Inl (ProviderNotFound (c_currentNetwork c))
      | Some p \<Rightarrow> Inr p)"
  by (simp add: getProvider_def or_else_def Let_def)

lemma sample_client_distinct: "distinct (map fst (c_wallets sample_client))"
  by (simp add: sample_client_def sample_accounts_def)

text \<open>
  C2. For every network name \<open>n\<close>: if \<open>n\<close> is absent from the connection pool,
  \<open>switchNetwork\<close> fails with \<open>NetworkNotConfigured n\<close> and leaves the client, hence the
  cursor, as it was. If the pool holds the connection \<open>p\<close> for \<open>n\<close>, the call succeeds,
  the cursor is \<open>n\<close>, the pool is unchanged, and the identity table holds the same
  addresses in the same order, each identity bound to \<open>p\<close> with its address, key and
  path untouched. (The table is the contents of a \<^verbatim>\<open>Map\<close>: its keys are distinct.)
\<close>

theorem switchNetwork_spec:
  "(c_providers c n = None \<longrightarrow>
      switchNetwork c n = (Inl (NetworkNotConfigured n), c))
   \<and> (\<forall>p. c_providers c n = Some p \<and> distinct (map fst (c_wallets c)) \<longrightarrow>
        fst (switchNetwork c n) = Inr ()
        \<and> c_currentNetwork (snd (switchNetwork c n)) = n
        \<and> c_providers (snd (switchNetwork c n)) = c_providers c
        \<and> c_wallets (snd (switchNetwork c n))
            = map (\<lambda>aw. (fst aw, (snd aw)\<lparr>w_provider := Some p\<rparr>)) (c_wallets c))"
  by (simp add: switchNetwork_def getProvider_current logger_def rebind_map connect_def)

theorem switchNetwork_spec_witness:
  "c_providers sample_client ''goerli'' = None
   \<and> switchNetwork sample_client ''goerli'' = (Inl (NetworkNotConfigured ''goerli''), sample_client)
   \<and> c_providers sample_client ''polygon'' = Some (sample_provider ''polygon'')
   \<and> distinct (map fst (c_wallets sample_client))
   \<and> fst (switchNetwork sample_client ''polygon'') = Inr ()
   \<and> c_currentNetwork (snd (switchNetwork sample_client ''polygon'')) = ''polygon''
   \<and> map (\<lambda>aw. (fst aw, w_privateKey (snd aw), w_provider (snd aw)))
          (c_wallets (snd (switchNetwork sample_client ''polygon'')))
       = map (\<lambda>ak. (fst ak, snd ak, Some (sample_provider ''polygon''))) (take 2 sample_accounts)"
proof -
  have a: "c_providers sample_client ''goerli'' = None"
    by (simp add: sample_client_def)
  have b: "c_providers sample_client ''polygon'' = Some (sample_provider ''polygon'')"
    by (simp add: sample_client_def)
  have ws: "c_wallets sample_client
      = map (\<lambda>ak. (fst ak, connect (sample_wallet ak None) (sample_provider ''mainnet'')))
          (take 2 sample_accounts)"
    by (simp add: sample_client_def)
  show ?thesis
    using switchNetwork_spec [of sample_client "''goerli''"]
      switchNetwork_spec [of sample_client "''polygon''"] a b sample_client_distinct
    by (simp add: ws connect_def sample_wallet_def)
qed

section \<open>Construction\<close>

lemma logger_fields [simp]:
  "c_providers (logger lv tag msg c) = c_providers c"
  "c_wallets (logger lv tag msg c) = c_wallets c"
  "c_config (logger lv tag msg c) = c_config c"
  "c_currentNetwork (logger lv tag msg c) = c_currentNetwork c"
  "c_log (logger lv tag msg c) = c_log c @ [(lv, ''EVM Client'', tag, msg)]"
  by (simp_all add: logger_def)

subsection \<open>The connection pool\<close>

lemma create_provider_fields [simp]:
  "c_wallets (create_provider lib c kn) = c_wallets c"
  "c_config (create_provider lib c kn) = c_config c"
  "c_currentNetwork (create_provider lib c kn) = c_currentNetwork c"
  by (simp_all add: create_provider_def split: sum.splits)

lemma create_provider_pool:
  "c_providers (create_provider lib c kn) =
     (case new_provider lib (snd kn) of
        Inr p \<Rightarrow> (c_providers c)(fst kn \<mapsto> p)
      | Inl e \<Rightarrow> c_providers c)"
  by (simp add: create_provider_def split: sum.splits)

lemma create_provider_log:
  "set (c_log c) \<subseteq> set (c_log (create_provider lib c kn))"
  by (auto simp: create_provider_def split: sum.splits)

lemma fold_create_fields [simp]:
  "c_wallets (fold (\<lambda>kn c'. create_provider lib c' kn) nets c) = c_wallets c"
  "c_config (fold (\<lambda>kn c'. create_provider lib c' kn) nets c) = c_config c"
  "c_currentNetwork (fold (\<lambda>kn c'. create_provider lib c' kn) nets c) = c_currentNetwork c"
  by (induction nets arbitrary: c) simp_all

lemma fold_create_log:
  "set (c_log c) \<subseteq> set (c_log (fold (\<lambda>kn c'. create_provider lib c' kn) nets c))"
proof (induction nets arbitrary: c)
  case Nil
  show ?case by simp
next
  case (Cons kn nets)
  show ?case using create_provider_log [of c lib kn] Cons.IH [of "create_provider lib c kn"]
    by auto
qed

lemma fold_create_other:
  "k \<notin> fst ` set nets \<Longrightarrow>
   c_providers (fold (\<lambda>kn c'. create_provider lib c' kn) nets c) k = c_providers c k"
  by (induction nets arbitrary: c) (auto simp: create_provider_pool split: sum.splits)

lemma fold_create_pool:
  "distinct (map fst nets) \<Longrightarrow> (k, net) \<in> set nets \<Longrightarrow>
   c_providers (fold (\<lambda>kn c'. create_provider lib c' kn) nets c) k =
     (case new_provider lib net of Inr p \<Rightarrow> Some p | Inl e \<Rightarrow> c_providers c k)"
proof (induction nets arbitrary: c)
  case Nil
  then show ?case by simp
next
  case (Cons kn nets)
  show ?case
  proof (cases "kn = (k, net)")
    case True
    with Cons.prems have "k \<notin> fst ` set nets" by auto
    then show ?thesis
      using True by (simp add: fold_create_other create_provider_pool split: sum.splits)
  next
    case False
    with Cons.prems have in_rest: "(k, net) \<in> set nets" and d: "distinct (map fst nets)"
      and ne: "fst kn \<noteq> k"
      by (auto simp: rev_image_eqI)
    show ?thesis
      using Cons.IH [OF d in_rest, of "create_provider lib c kn"] ne
      by (simp add: create_provider_pool split: sum.splits)
  qed
qed

lemma fold_create_failed_logged:
  "(k, net) \<in> set nets \<Longrightarrow> new_provider lib net = Inl e \<Longrightarrow>
   (Err, ''EVM Client'', ''Provider'',
      ''Failed to initialize provider for '' @ nc_name net @ '': '' @ toString e)
     \<in> set (c_log (fold (\<lambda>kn c'. create_provider lib c' kn) nets c))"
proof (induction nets arbitrary: c)
  case Nil
  then show ?case by simp
next
  case (Cons kn nets)
  show ?case
  proof (cases "kn = (k, net)")
    case True
    have "(Err, ''EVM Client'', ''Provider'',
      ''Failed to initialize provider for '' @ nc_name net @ '': '' @ toString e)
       \<in> set (c_log (create_provider lib c kn))"
      using True Cons.prems(2) by (simp add: create_provider_def)
    then show ?thesis
      using fold_create_log [of "create_provider lib c kn" lib nets] by auto
  next
    case False
    with Cons.prems have "(k, net) \<in> set nets" by auto
    then show ?thesis using Cons.IH Cons.prems(2) by simp
  qed
qed

lemma merge_common_distinct:
  "distinct (map fst networks) \<Longrightarrow> distinct (map fst (merge_common cs networks))"
proof (induction cs arbitrary: networks)
  case Nil
  then show ?case by simp
next
  case (Cons kn cs)
  obtain key network where kn: "kn = (key, network)" by (cases kn)
  show ?case
  proof (cases "map_of networks key = None")
    case True
    then have "key \<notin> fst ` set networks" by (simp add: map_of_eq_None_iff)
    with Cons.prems have "distinct (map fst (networks @ [(key, network)]))" by simp
    then have "distinct (map fst (merge_common cs (networks @ [(key, network)])))"
      by (rule Cons.IH)
    moreover have "merge_common (kn # cs) networks = merge_common cs (networks @ [(key, network)])"
      using True by (simp add: kn)
    ultimately show ?thesis by simp
  next
    case False
    then have "merge_common (kn # cs) networks = merge_common cs networks"
      by (auto simp: kn)
    then show ?thesis using Cons.IH [OF Cons.prems] by simp
  qed
qed

lemma merged_networks_distinct:
  "distinct (map fst (user_networks cfg)) \<Longrightarrow> distinct (map fst (merged_networks cfg))"
  by (simp add: merged_networks_def merge_common_distinct)

lemma initializeProviders_fields [simp]:
  "c_wallets (initializeProviders lib c) = c_wallets c"
  "c_currentNetwork (initializeProviders lib c) = c_currentNetwork c"
  by (simp_all add: initializeProviders_def Let_def split: option.splits)

lemma initializeProviders_pool:
  assumes "distinct (map fst (user_networks (c_config c)))"
    and "(k, net) \<in> set (merged_networks (c_config c))"
  shows "c_providers (initializeProviders lib c) k =
     (case new_provider lib net of Inr p \<Rightarrow> Some p | Inl e \<Rightarrow> c_providers c k)"
proof -
  let ?c1 = "c\<lparr>c_config := (c_config c)\<lparr>cfg_networks := Some (merged_networks (c_config c))\<rparr>\<rparr>"
  have pool: "\<And>c0. c_providers (fold (\<lambda>kn c'. create_provider lib c' kn) (merged_networks (c_config c)) c0) k
      = (case new_provider lib net of Inr p \<Rightarrow> Some p | Inl e \<Rightarrow> c_providers c0 k)"
    by (rule fold_create_pool [OF merged_networks_distinct [OF assms(1)] assms(2)])
  show ?thesis
  proof (cases "cfg_networks (c_config c)")
    case None
    then show ?thesis using pool [of c] by (simp add: initializeProviders_def Let_def)
  next
    case (Some ns)
    then show ?thesis using pool [of ?c1]
      by (simp add: initializeProviders_def Let_def split: sum.splits)
  qed
qed

lemma initializeProviders_failed_logged:
  assumes "(k, net) \<in> set (merged_networks (c_config c))" and "new_provider lib net = Inl e"
  shows "(Err, ''EVM Client'', ''Provider'',
      ''Failed to initialize provider for '' @ nc_name net @ '': '' @ toString e)
     \<in> set (c_log (initializeProviders lib c))"
  using fold_create_failed_logged [OF assms]
  by (simp add: initializeProviders_def Let_def split: option.splits)

lemma constructor_outcome:
  "constructor lib cfg =
     (case c_providers (initializeProviders lib (new_client cfg))
             (or_else (cfg_defaultNetwork cfg) ''mainnet'') of
        None \<Rightarrow> Inl (ProviderNotFound (or_else (cfg_defaultNetwork cfg) ''mainnet''))
      | Some p \<Rightarrow>
          Inr (init_from_mnemonic lib p
                 (init_from_keys lib p (initializeProviders lib (new_client cfg)))))"
  by (simp add: constructor_def initializeWallets_def getProvider_current new_client_def
      split: option.splits)


subsection \<open>The wallet phases keep pool, cursor and configuration\<close>

lemma init_key_fields [simp]:
  "c_providers (init_key lib p c ki) = c_providers c"
  "c_currentNetwork (init_key lib p c ki) = c_currentNetwork c"
  "c_config (init_key lib p c ki) = c_config c"
  by (simp_all add: init_key_def split: sum.splits)

lemma init_keys_fields [simp]:
  "c_providers (init_keys lib p keys c) = c_providers c"
  "c_currentNetwork (init_keys lib p keys c) = c_currentNetwork c"
  "c_config (init_keys lib p keys c) = c_config c"
proof -
  have "\<And>kis. c_providers (fold (\<lambda>ki c'. init_key lib p c' ki) kis c) = c_providers c
      \<and> c_currentNetwork (fold (\<lambda>ki c'. init_key lib p c' ki) kis c) = c_currentNetwork c
      \<and> c_config (fold (\<lambda>ki c'. init_key lib p c' ki) kis c) = c_config c"
  proof -
    fix kis show "?thesis kis" by (induction kis arbitrary: c) simp_all
  qed
  then show "c_providers (init_keys lib p keys c) = c_providers c"
    "c_currentNetwork (init_keys lib p keys c) = c_currentNetwork c"
    "c_config (init_keys lib p keys c) = c_config c"
    by (simp_all add: init_keys_def)
qed

lemma init_hd_fields [simp]:
  "c_providers (init_hd lib p phrase hdPath startIndex i c) = c_providers c"
  "c_currentNetwork (init_hd lib p phrase hdPath startIndex i c) = c_currentNetwork c"
  "c_config (init_hd lib p phrase hdPath startIndex i c) = c_config c"
proof -
  have "c_providers (init_hd lib p phrase hdPath startIndex i c) = c_providers c
      \<and> c_currentNetwork (init_hd lib p phrase hdPath startIndex i c) = c_currentNetwork c
      \<and> c_config (init_hd lib p phrase hdPath startIndex i c) = c_config c"
  proof (induction lib p phrase hdPath startIndex i c rule: init_hd.induct)
    case (1 lib p phrase hdPath startIndex i c)
    show ?case
    proof (cases "i < 10")
      case False
      then show ?thesis by (simp add: init_hd.simps [of lib p phrase hdPath startIndex i c])
    next
      case True
      show ?thesis
      proof (cases "derive lib phrase (hd_path hdPath startIndex i)")
        case (Inl e)
        then show ?thesis
          using True by (simp add: init_hd.simps [of lib p phrase hdPath startIndex i c])
      next
        case (Inr w)
        then show ?thesis
          using True "1.IH" [OF True refl Inr]
          by (simp add: init_hd.simps [of lib p phrase hdPath startIndex i c])
      qed
    qed
  qed
  then show "c_providers (init_hd lib p phrase hdPath startIndex i c) = c_providers c"
    "c_currentNetwork (init_hd lib p phrase hdPath startIndex i c) = c_currentNetwork c"
    "c_config (init_hd lib p phrase hdPath startIndex i c) = c_config c"
    by simp_all
qed

lemma init_from_keys_fields [simp]:
  "c_providers (init_from_keys lib p c) = c_providers c"
  "c_currentNetwork (init_from_keys lib p c) = c_currentNetwork c"
  "c_config (init_from_keys lib p c) = c_config c"
  by (simp_all add: init_from_keys_def split: option.splits)

lemma init_from_mnemonic_fields [simp]:
  "c_providers (init_from_mnemonic lib p c) = c_providers c"
  "c_currentNetwork (init_from_mnemonic lib p c) = c_currentNetwork c"
  "c_config (init_from_mnemonic lib p c) = c_config c"
  by (simp_all add: init_from_mnemonic_def split: option.splits)

text \<open>
  C3 (as amended). A network whose connection cannot be constructed is caught and logged
  and is absent from the pool. Construction of the client then completes exactly when the
  pool holds a connection for the default network: if it does not (the default network's
  own connection failed, or the name is not configured), the constructor raises
  \<open>ProviderNotFound\<close> from \<open>initializeWallets\<close>. The networks of a configuration are the
  properties of an object, so their keys are distinct.
\<close>

theorem constructor_and_failed_networks:
  assumes "distinct (map fst (user_networks cfg))"
  shows "(\<forall>(k, net) \<in> set (merged_networks cfg). \<forall>e. new_provider lib net = Inl e \<longrightarrow>
            c_providers (initializeProviders lib (new_client cfg)) k = None
            \<and> (Err, ''EVM Client'', ''Provider'',
                 ''Failed to initialize provider for '' @ nc_name net @ '': '' @ toString e)
                \<in> set (c_log (initializeProviders lib (new_client cfg))))
       \<and> (case c_providers (initializeProviders lib (new_client cfg))
                  (or_else (cfg_defaultNetwork cfg) ''mainnet'') of
             None \<Rightarrow>
               constructor lib cfg
                 = Inl (ProviderNotFound (or_else (cfg_defaultNetwork cfg) ''mainnet''))
           | Some p \<Rightarrow>
               (\<exists>c. constructor lib cfg = Inr c
                  \<and> c_providers c = c_providers (initializeProviders lib (new_client cfg))
                  \<and> c_currentNetwork c = or_else (cfg_defaultNetwork cfg) ''mainnet''))"
proof (intro conjI ballI)
  fix kn assume kn: "kn \<in> set (merged_networks cfg)"
  obtain k net where eq: "kn = (k, net)" by (cases kn)
  have cfg: "c_config (new_client cfg) = cfg" by (simp add: new_client_def)
  have "\<forall>e. new_provider lib net = Inl e \<longrightarrow>
            c_providers (initializeProviders lib (new_client cfg)) k = None
            \<and> (Err, ''EVM Client'', ''Provider'',
                 ''Failed to initialize provider for '' @ nc_name net @ '': '' @ toString e)
                \<in> set (c_log (initializeProviders lib (new_client cfg)))"
  proof (intro allI impI conjI)
    fix e assume failed: "new_provider lib net = Inl e"
    show "c_providers (initializeProviders lib (new_client cfg)) k = None"
      using initializeProviders_pool [of "new_client cfg" k net lib] assms kn failed
      by (simp add: cfg eq) (simp add: new_client_def)
    show "(Err, ''EVM Client'', ''Provider'',
            ''Failed to initialize provider for '' @ nc_name net @ '': '' @ toString e)
          \<in> set (c_log (initializeProviders lib (new_client cfg)))"
      using initializeProviders_failed_logged [of k net "new_client cfg" lib e] kn failed
      by (simp add: cfg eq)
  qed
  then show "case kn of (k, net) \<Rightarrow> \<forall>e. new_provider lib net = Inl e \<longrightarrow>
            c_providers (initializeProviders lib (new_client cfg)) k = None
            \<and> (Err, ''EVM Client'', ''Provider'',
                 ''Failed to initialize provider for '' @ nc_name net @ '': '' @ toString e)
                \<in> set (c_log (initializeProviders lib (new_client cfg)))"
    by (simp add: eq)
next
  show "case c_providers (initializeProviders lib (new_client cfg))
                  (or_else (cfg_defaultNetwork cfg) ''mainnet'') of
             None \<Rightarrow>
               constructor lib cfg
                 = Inl (ProviderNotFound (or_else (cfg_defaultNetwork cfg) ''mainnet''))
           | Some p \<Rightarrow>
               (\<exists>c. constructor lib cfg = Inr c
                  \<and> c_providers c = c_providers (initializeProviders lib (new_client cfg))
                  \<and> c_currentNetwork c = or_else (cfg_defaultNetwork cfg) ''mainnet'')"
    by (simp add: constructor_outcome new_client_def split: option.splits)
qed

lemma initializeProviders_absent:
  assumes "k \<notin> fst ` set (merged_networks (c_config c))"
  shows "c_providers (initializeProviders lib c) k = c_providers c k"
proof -
  let ?c1 = "c\<lparr>c_config := (c_config c)\<lparr>cfg_networks := Some (merged_networks (c_config c))\<rparr>\<rparr>"
  have pool: "\<And>c0. c_providers (fold (\<lambda>kn c'. create_provider lib c' kn)
        (merged_networks (c_config c)) c0) k = c_providers c0 k"
    by (rule fold_create_other [OF assms])
  show ?thesis
  proof (cases "cfg_networks (c_config c)")
    case None
    then show ?thesis using pool [of c] by (simp add: initializeProviders_def Let_def)
  next
    case (Some ns)
    then show ?thesis using pool [of ?c1] by (simp add: initializeProviders_def Let_def)
  qed
qed

lemma unconfigured_default_aborts:
  assumes "or_else (cfg_defaultNetwork cfg) ''mainnet'' \<notin> fst ` set (merged_networks cfg)"
  shows "constructor lib cfg = Inl (ProviderNotFound (or_else (cfg_defaultNetwork cfg) ''mainnet''))"
proof -
  have "c_providers (initializeProviders lib (new_client cfg))
          (or_else (cfg_defaultNetwork cfg) ''mainnet'')
      = c_providers (new_client cfg) (or_else (cfg_defaultNetwork cfg) ''mainnet'')"
    by (rule initializeProviders_absent) (simp add: new_client_def assms)
  then have "c_providers (initializeProviders lib (new_client cfg))
          (or_else (cfg_defaultNetwork cfg) ''mainnet'') = None"
    by (simp add: new_client_def)
  then show ?thesis by (simp add: constructor_outcome)
qed

lemma failed_default_aborts:
  assumes "distinct (map fst (user_networks cfg))"
    and "(or_else (cfg_defaultNetwork cfg) ''mainnet'', net) \<in> set (merged_networks cfg)"
    and "new_provider lib net = Inl e"
  shows "constructor lib cfg = Inl (ProviderNotFound (or_else (cfg_defaultNetwork cfg) ''mainnet''))"
proof -
  have cfg: "c_config (new_client cfg) = cfg" by (simp add: new_client_def)
  have "c_providers (initializeProviders lib (new_client cfg))
          (or_else (cfg_defaultNetwork cfg) ''mainnet'')
      = (case new_provider lib net of
           Inr p \<Rightarrow> Some p
         | Inl e \<Rightarrow> c_providers (new_client cfg) (or_else (cfg_defaultNetwork cfg) ''mainnet''))"
    by (rule initializeProviders_pool) (simp_all add: cfg assms)
  then have "c_providers (initializeProviders lib (new_client cfg))
          (or_else (cfg_defaultNetwork cfg) ''mainnet'') = None"
    by (simp add: assms(3) new_client_def)
  then show ?thesis by (simp add: constructor_outcome)
qed

lemma overflowing_network_rejected:
  "new_provider sample_ethers (overflowing_network name) = Inl (External ''overflow'')"
  by (simp add: new_provider_def sample_ethers_def overflowing_network_def)

lemma merged_bad_local:
  "merged_networks bad_local_config = (''local'', overflowing_network ''Local'') # COMMON_NETWORKS"
  by (simp add: merged_networks_def user_networks_def bad_local_config_def empty_config_def
      COMMON_NETWORKS_def)

lemma merged_unconfigured_default:
  "merged_networks unconfigured_default_config = COMMON_NETWORKS"
  by (simp add: merged_networks_def user_networks_def unconfigured_default_config_def
      empty_config_def COMMON_NETWORKS_def)

lemma goerli_not_common: "''goerli'' \<notin> fst ` set COMMON_NETWORKS"
  by (simp add: COMMON_NETWORKS_def)

lemma unconfigured_default_cursor:
  "or_else (cfg_defaultNetwork unconfigured_default_config) ''mainnet'' = ''goerli''"
  by (simp add: unconfigured_default_config_def empty_config_def or_else_def)

text \<open>
  The claim as stated fails: construction does not complete for every configuration. A
  default network that names no descriptor leaves the pool without a connection for the
  cursor, and the constructor raises, whatever the library does.
\<close>

theorem default_network_absent_aborts:
  "cfg_networks unconfigured_default_config = None
   \<and> cfg_defaultNetwork unconfigured_default_config = Some ''goerli''
   \<and> ''goerli'' \<notin> fst ` set (merged_networks unconfigured_default_config)
   \<and> constructor sample_ethers unconfigured_default_config = Inl (ProviderNotFound ''goerli'')"
proof -
  have a: "cfg_networks unconfigured_default_config = None"
    by (simp add: unconfigured_default_config_def empty_config_def)
  have b: "cfg_defaultNetwork unconfigured_default_config = Some ''goerli''"
    by (simp add: unconfigured_default_config_def empty_config_def)
  have c: "''goerli'' \<notin> fst ` set (merged_networks unconfigured_default_config)"
    by (simp only: merged_unconfigured_default goerli_not_common not_False_eq_True)
  have "or_else (cfg_defaultNetwork unconfigured_default_config) ''mainnet''
      \<notin> fst ` set (merged_networks unconfigured_default_config)"
    by (simp only: unconfigured_default_cursor c not_False_eq_True)
  from unconfigured_default_aborts [OF this, of sample_ethers]
  have d: "constructor sample_ethers unconfigured_default_config = Inl (ProviderNotFound ''goerli'')"
    by (simp only: unconfigured_default_cursor)
  show ?thesis by (intro conjI a b c d)
qed

theorem constructor_and_failed_networks_witness:
  "distinct (map fst (user_networks bad_local_config))
   \<and> (''local'', overflowing_network ''Local'') \<in> set (merged_networks bad_local_config)
   \<and> new_provider sample_ethers (overflowing_network ''Local'') = Inl (External ''overflow'')
   \<and> c_providers (initializeProviders sample_ethers (new_client bad_local_config)) ''local'' = None
   \<and> (Err, ''EVM Client'', ''Provider'',
        ''Failed to initialize provider for Local: Error: overflow'')
       \<in> set (c_log (initializeProviders sample_ethers (new_client bad_local_config)))
   \<and> c_providers (initializeProviders sample_ethers (new_client bad_local_config)) ''mainnet''
        \<noteq> None
   \<and> (\<exists>c. constructor sample_ethers bad_local_config = Inr c \<and> c_currentNetwork c = ''mainnet'')
   \<and> distinct (map fst (user_networks unconfigured_default_config))
   \<and> c_providers (initializeProviders sample_ethers (new_client unconfigured_default_config))
        ''goerli'' = None
   \<and> constructor sample_ethers unconfigured_default_config = Inl (ProviderNotFound ''goerli'')"
proof -
  have d: "distinct (map fst (user_networks bad_local_config))"
    by (simp add: user_networks_def bad_local_config_def empty_config_def)
  have m: "(''local'', overflowing_network ''Local'') \<in> set (merged_networks bad_local_config)"
    by (simp add: merged_bad_local)
  have f: "new_provider sample_ethers (overflowing_network ''Local'') = Inl (External ''overflow'')"
    by (rule overflowing_network_rejected)
  have cfg: "c_config (new_client bad_local_config) = bad_local_config"
    by (simp add: new_client_def)
  have cur: "or_else (cfg_defaultNetwork bad_local_config) ''mainnet'' = ''mainnet''"
    by (simp add: bad_local_config_def empty_config_def or_else_def)
  have mm: "(''mainnet'', hd (map snd COMMON_NETWORKS)) \<in> set (merged_networks bad_local_config)"
    by (simp add: merged_bad_local COMMON_NETWORKS_def)
  have ok: "new_provider sample_ethers (hd (map snd COMMON_NETWORKS))
      = Inr \<lparr>pr_rpcUrl = ''https://eth.llamarpc.com'', pr_name = ''Ethereum Mainnet'', pr_chainId = 1\<rparr>"
    by (simp add: COMMON_NETWORKS_def new_provider_def sample_ethers_def)
  have pool: "c_providers (initializeProviders sample_ethers (new_client bad_local_config)) ''mainnet''
      = Some \<lparr>pr_rpcUrl = ''https://eth.llamarpc.com'', pr_name = ''Ethereum Mainnet'', pr_chainId = 1\<rparr>"
    using initializeProviders_pool [of "new_client bad_local_config" "''mainnet''" _ sample_ethers] d mm
    by (simp add: cfg ok)
  then have pool': "c_providers (initializeProviders sample_ethers (new_client bad_local_config))
      ''mainnet'' \<noteq> None"
    by simp
  note main = constructor_and_failed_networks [OF d, of sample_ethers]
  from main have "\<forall>(k, net) \<in> set (merged_networks bad_local_config).
       \<forall>e. new_provider sample_ethers net = Inl e \<longrightarrow>
            c_providers (initializeProviders sample_ethers (new_client bad_local_config)) k = None
            \<and> (Err, ''EVM Client'', ''Provider'',
                 ''Failed to initialize provider for '' @ nc_name net @ '': '' @ toString e)
                \<in> set (c_log (initializeProviders sample_ethers (new_client bad_local_config)))"
    by (rule conjunct1)
  from bspec [OF this m] f
  have absent: "c_providers (initializeProviders sample_ethers (new_client bad_local_config)) ''local'' = None"
    and logged: "(Err, ''EVM Client'', ''Provider'',
        ''Failed to initialize provider for Local: Error: overflow'')
       \<in> set (c_log (initializeProviders sample_ethers (new_client bad_local_config)))"
    by (simp_all add: overflowing_network_def)
  from conjunct2 [OF main]
  have completes: "\<exists>c. constructor sample_ethers bad_local_config = Inr c
      \<and> c_currentNetwork c = ''mainnet''"
    by (auto simp: cur pool)
  have d2: "distinct (map fst (user_networks unconfigured_default_config))"
    by (simp add: user_networks_def unconfigured_default_config_def empty_config_def)
  have none: "c_providers (initializeProviders sample_ethers (new_client unconfigured_default_config))
        ''goerli'' = None"
    using initializeProviders_absent [of "''goerli''" "new_client unconfigured_default_config"
        sample_ethers]
    by (simp add: new_client_def merged_unconfigured_default goerli_not_common)
  note second = conjunct2 [OF constructor_and_failed_networks [OF d2, of sample_ethers]]
  have aborted: "constructor sample_ethers unconfigured_default_config
      = Inl (ProviderNotFound ''goerli'')"
    using second by (simp add: unconfigured_default_cursor none)
  show ?thesis
    by (intro conjI d m f absent logged pool' completes d2 none aborted)
qed

section \<open>Identities from raw keys and from a seed phrase\<close>

subsection \<open>Raw keys\<close>

lemma init_key_wallets:
  "c_wallets (init_key lib p c ki) = key_step lib p (fst ki) (c_wallets c)"
  by (simp add: init_key_def key_step_def split: sum.splits)

lemma fold_init_key_wallets:
  "length idx = length keys \<Longrightarrow>
   c_wallets (fold (\<lambda>ki c'. init_key lib p c' ki) (zip keys idx) c)
     = fold (key_step lib p) keys (c_wallets c)"
proof (induction keys arbitrary: idx c)
  case Nil
  then show ?case by simp
next
  case (Cons k keys)
  then obtain i idx' where idx: "idx = i # idx'" by (cases idx) auto
  with Cons.prems have "length idx' = length keys" by simp
  from Cons.IH [OF this] show ?case by (simp add: idx init_key_wallets)
qed

lemma init_keys_wallets:
  "c_wallets (init_keys lib p keys c) = fold (key_step lib p) keys (c_wallets c)"
  by (simp add: init_keys_def fold_init_key_wallets)

lemma key_step_mono: "fst ` set t \<subseteq> fst ` set (key_step lib p k t)"
  by (auto simp: key_step_def AList.dom_update split: sum.splits)

lemma fold_key_step_mono: "fst ` set t \<subseteq> fst ` set (fold (key_step lib p) keys t)"
proof (induction keys arbitrary: t)
  case Nil
  show ?case by simp
next
  case (Cons k keys)
  show ?case using key_step_mono [of t lib p k] Cons.IH [of "key_step lib p k t"] by auto
qed

lemma fold_key_step_member:
  "k \<in> set keys \<Longrightarrow> Wallet_new lib k = Inr w \<Longrightarrow>
   w_address w \<in> fst ` set (fold (key_step lib p) keys t)"
proof (induction keys arbitrary: t)
  case Nil
  then show ?case by simp
next
  case (Cons k' keys)
  show ?case
  proof (cases "k' = k")
    case True
    have "w_address w \<in> fst ` set (key_step lib p k t)"
      using Cons.prems(2) by (simp add: key_step_def AList.dom_update)
    then show ?thesis
      using fold_key_step_mono [of "key_step lib p k t" lib p keys] True by auto
  next
    case False
    with Cons.prems have "k \<in> set keys" by simp
    from Cons.IH [OF this Cons.prems(2)] show ?thesis by simp
  qed
qed

lemma fold_key_step_filter:
  "fold (key_step lib p) (filter (\<lambda>k. \<not> isl (Wallet_new lib k)) keys) t
     = fold (key_step lib p) keys t"
proof (induction keys arbitrary: t)
  case Nil
  show ?case by simp
next
  case (Cons k keys)
  show ?case
  proof (cases "Wallet_new lib k")
    case (Inl e)
    then show ?thesis using Cons.IH by (simp add: key_step_def)
  next
    case (Inr w)
    then show ?thesis using Cons.IH by simp
  qed
qed

lemma init_key_log: "set (c_log c) \<subseteq> set (c_log (init_key lib p c ki))"
  by (auto simp: init_key_def split: sum.splits)

lemma fold_init_key_log:
  "set (c_log c) \<subseteq> set (c_log (fold (\<lambda>ki c'. init_key lib p c' ki) kis c))"
proof (induction kis arbitrary: c)
  case Nil
  show ?case by simp
next
  case (Cons ki kis)
  show ?case using init_key_log [of c lib p ki] Cons.IH [of "init_key lib p c ki"] by auto
qed

lemma fold_init_key_failed_logged:
  "k \<in> fst ` set kis \<Longrightarrow> Wallet_new lib k = Inl e \<Longrightarrow>
   (Err, ''EVM Client'', ''Wallet'',
      ''Failed to initialize wallet from private key: '' @ toString e)
     \<in> set (c_log (fold (\<lambda>ki c'. init_key lib p c' ki) kis c))"
proof (induction kis arbitrary: c)
  case Nil
  then show ?case by simp
next
  case (Cons ki kis)
  show ?case
  proof (cases "fst ki = k")
    case True
    have "(Err, ''EVM Client'', ''Wallet'',
        ''Failed to initialize wallet from private key: '' @ toString e)
       \<in> set (c_log (init_key lib p c ki))"
      using True Cons.prems(2) by (simp add: init_key_def)
    then show ?thesis using fold_init_key_log [of "init_key lib p c ki" lib p kis] by auto
  next
    case False
    with Cons.prems have "k \<in> fst ` set kis" by auto
    from Cons.IH [OF this Cons.prems(2)] show ?thesis by simp
  qed
qed

lemma init_keys_failed_logged:
  assumes "k \<in> set keys" and "Wallet_new lib k = Inl e"
  shows "(Err, ''EVM Client'', ''Wallet'',
      ''Failed to initialize wallet from private key: '' @ toString e)
     \<in> set (c_log (init_keys lib p keys c))"
proof -
  have "fst ` set (zip keys [0 ..< length keys]) = set keys"
    by (metis length_upt map_fst_zip minus_nat.diff_0 set_map)
  with assms(1) have "k \<in> fst ` set (zip keys [0 ..< length keys])" by simp
  from fold_init_key_failed_logged [OF this assms(2)] show ?thesis
    by (simp add: init_keys_def)
qed

subsection \<open>The HD loop\<close>

lemma init_hd_wallets:
  "c_wallets (init_hd lib p phrase hdPath startIndex i c)
     = insert_wallets p
         (oks (map (\<lambda>j. derive lib phrase (hd_path hdPath startIndex j)) [i ..< 10]))
         (c_wallets c)"
proof (induction lib p phrase hdPath startIndex i c rule: init_hd.induct)
  case (1 lib p phrase hdPath startIndex i c)
  show ?case
  proof (cases "i < 10")
    case False
    then show ?thesis
      by (simp add: init_hd.simps [of lib p phrase hdPath startIndex i c] insert_wallets_def)
  next
    case True
    then have upt: "[i ..< 10] = i # [Suc i ..< 10]" by (simp add: upt_conv_Cons)
    show ?thesis
    proof (cases "derive lib phrase (hd_path hdPath startIndex i)")
      case (Inl e)
      then show ?thesis
        using True
        by (simp add: init_hd.simps [of lib p phrase hdPath startIndex i c] upt insert_wallets_def)
    next
      case (Inr w)
      then show ?thesis
        using True "1.IH" [OF True refl Inr]
        by (simp add: init_hd.simps [of lib p phrase hdPath startIndex i c] upt insert_wallets_def)
    qed
  qed
qed

lemma init_hd_log:
  "set (c_log c) \<subseteq> set (c_log (init_hd lib p phrase hdPath startIndex i c))"
proof (induction lib p phrase hdPath startIndex i c rule: init_hd.induct)
  case (1 lib p phrase hdPath startIndex i c)
  show ?case
  proof (cases "i < 10")
    case False
    then show ?thesis by (simp add: init_hd.simps [of lib p phrase hdPath startIndex i c])
  next
    case True
    show ?thesis
    proof (cases "derive lib phrase (hd_path hdPath startIndex i)")
      case (Inl e)
      then show ?thesis
        using True by (auto simp: init_hd.simps [of lib p phrase hdPath startIndex i c])
    next
      case (Inr w)
      then show ?thesis
        using True "1.IH" [OF True refl Inr]
        by (auto simp: init_hd.simps [of lib p phrase hdPath startIndex i c])
    qed
  qed
qed

lemma insert_wallets_mono: "fst ` set t \<subseteq> fst ` set (insert_wallets p ws t)"
proof (induction ws arbitrary: t)
  case Nil
  show ?case by (simp add: insert_wallets_def)
next
  case (Cons w ws)
  have "fst ` set t \<subseteq> fst ` set (AList.update (w_address w) (connect w p) t)"
    by (auto simp: AList.dom_update)
  then show ?case
    using Cons.IH [of "AList.update (w_address w) (connect w p) t"]
    by (auto simp: insert_wallets_def)
qed

lemma oks_all:
  "\<forall>j. i \<le> j \<and> j < n \<longrightarrow> f j = Inr (g j) \<Longrightarrow> oks (map f [i ..< n]) = map g [i ..< n]"
proof (induction "n - i" arbitrary: i)
  case 0
  then show ?case by simp
next
  case (Suc d)
  then have lt: "i < n" by simp
  then have upt: "[i ..< n] = i # [Suc i ..< n]" by (simp add: upt_conv_Cons)
  have "d = n - Suc i" using Suc.hyps(2) by simp
  from Suc.hyps(1) [OF this] Suc.prems
  have "oks (map f [Suc i ..< n]) = map g [Suc i ..< n]" by simp
  moreover have "f i = Inr (g i)" using Suc.prems lt by simp
  ultimately show ?case by (simp add: upt)
qed

lemma oks_until:
  assumes "i \<le> m" and "m < n" and "\<forall>j. i \<le> j \<and> j < m \<longrightarrow> f j = Inr (g j)" and "f m = Inl e"
  shows "oks (map f [i ..< n]) = map g [i ..< m]"
  using assms
proof (induction "m - i" arbitrary: i)
  case 0
  then have "i = m" by simp
  moreover have "[m ..< n] = m # [Suc m ..< n]" using \<open>m < n\<close> by (simp add: upt_conv_Cons)
  ultimately show ?case using \<open>f m = Inl e\<close> by simp
next
  case (Suc d)
  then have lt: "i < m" by simp
  then have "i < n" using \<open>m < n\<close> by simp
  then have upt: "[i ..< n] = i # [Suc i ..< n]" by (simp add: upt_conv_Cons)
  have upt2: "[i ..< m] = i # [Suc i ..< m]" using lt by (simp add: upt_conv_Cons)
  have d: "d = m - Suc i" using Suc.hyps(2) by simp
  have "oks (map f [Suc i ..< n]) = map g [Suc i ..< m]"
    using Suc.hyps(1) [OF d] lt Suc.prems by simp
  moreover have "f i = Inr (g i)" using Suc.prems lt by simp
  ultimately show ?case by (simp add: upt upt2)
qed


lemma update_fresh_append:
  "k \<notin> fst ` set t \<Longrightarrow> AList.update k v t = t @ [(k, v)]"
  by (induction t) auto

lemma insert_wallets_fresh:
  "distinct (map fst t @ map w_address ws) \<Longrightarrow>
   insert_wallets p ws t = t @ map (\<lambda>w. (w_address w, connect w p)) ws"
proof (induction ws arbitrary: t)
  case Nil
  show ?case by (simp add: insert_wallets_def)
next
  case (Cons w ws)
  from Cons.prems have fresh: "w_address w \<notin> fst ` set t" by auto
  have d: "distinct (map fst (t @ [(w_address w, connect w p)]) @ map w_address ws)"
    using Cons.prems by auto
  have "insert_wallets p (w # ws) t = insert_wallets p ws (t @ [(w_address w, connect w p)])"
    by (simp add: insert_wallets_def update_fresh_append [OF fresh])
  also have "\<dots> = (t @ [(w_address w, connect w p)]) @ map (\<lambda>w. (w_address w, connect w p)) ws"
    by (rule Cons.IH [OF d])
  finally show ?case by simp
qed

lemma insert_wallets_keys:
  "fst ` set (insert_wallets p ws t) = fst ` set t \<union> w_address ` set ws"
proof (induction ws arbitrary: t)
  case Nil
  show ?case by (simp add: insert_wallets_def)
next
  case (Cons w ws)
  have "insert_wallets p (w # ws) t = insert_wallets p ws (AList.update (w_address w) (connect w p) t)"
    by (simp add: insert_wallets_def)
  then show ?case using Cons.IH [of "AList.update (w_address w) (connect w p) t"]
    by (auto simp: AList.dom_update)
qed

lemma insert_wallets_key_order:
  "map fst t = map fst t' \<Longrightarrow>
   map fst (insert_wallets p ws t) = map fst (insert_wallets p' ws t')"
proof (induction ws arbitrary: t t')
  case Nil
  then show ?case by (simp add: insert_wallets_def)
next
  case (Cons w ws)
  have "map fst (AList.update (w_address w) (connect w p) t)
      = map fst (AList.update (w_address w) (connect w p') t')"
    using Cons.prems by (simp add: AList.update_keys)
  from Cons.IH [OF this] show ?case by (simp add: insert_wallets_def)
qed

lemma spec_hd_paths_nth:
  "j < 10 \<Longrightarrow> spec_hd_paths hdPath accountIndex ! j
     = hd_path (or_else hdPath ''m/44'/60'/0'/0'')
         (case accountIndex of None \<Rightarrow> 0 | Some a \<Rightarrow> a) j"
  by (simp add: spec_hd_paths_def hd_path_def)

lemma init_from_mnemonic_wallets:
  assumes "cfg_mnemonic (c_config c) = Some phrase" and "phrase \<noteq> []"
  shows "c_wallets (init_from_mnemonic lib p c)
     = insert_wallets p
         (oks (map (\<lambda>j. derive lib phrase
                 (hd_path (or_else (cfg_hdPath (c_config c)) ''m/44'/60'/0'/0'')
                    (case cfg_accountIndex (c_config c) of None \<Rightarrow> 0 | Some a \<Rightarrow> a) j))
               [0 ..< 10]))
         (c_wallets c)"
  using assms by (simp add: init_from_mnemonic_def init_hd_wallets)

lemma init_from_mnemonic_mono:
  "fst ` set (c_wallets c) \<subseteq> fst ` set (c_wallets (init_from_mnemonic lib p c))"
  by (auto simp: init_from_mnemonic_def init_hd_wallets insert_wallets_keys split: option.splits)

lemma init_from_mnemonic_log:
  "set (c_log c) \<subseteq> set (c_log (init_from_mnemonic lib p c))"
  using init_hd_log by (auto simp: init_from_mnemonic_def split: option.splits)

lemma init_from_keys_wallets:
  "cfg_privateKeys (c_config c) = Some keys \<Longrightarrow>
   c_wallets (init_from_keys lib p c) = fold (key_step lib p) keys (c_wallets c)"
  by (cases keys) (simp_all add: init_from_keys_def init_keys_wallets)

lemma init_from_keys_failed_logged:
  assumes "cfg_privateKeys (c_config c) = Some keys" and "k \<in> set keys"
    and "Wallet_new lib k = Inl e"
  shows "(Err, ''EVM Client'', ''Wallet'',
      ''Failed to initialize wallet from private key: '' @ toString e)
     \<in> set (c_log (init_from_keys lib p c))"
proof -
  from assms(2) have "length keys > 0" by (cases keys) auto
  then show ?thesis
    using init_keys_failed_logged [OF assms(2,3)] assms(1) by (simp add: init_from_keys_def)
qed

lemma initializeWallets_eq:
  "getProvider c None = Inr p \<Longrightarrow>
   initializeWallets lib c = Inr (init_from_mnemonic lib p (init_from_keys lib p c))"
  by (simp add: initializeWallets_def)

text \<open>
  C8. Whatever raw keys are configured, once initialization has its connection it does not
  abort: for each key of the list, if the library accepts it the pool of the finished
  client holds an identity under its address, and if the library rejects it the failure
  is logged. The pool after the raw-key phase is what the accepted keys alone produce, in
  their order: a rejected key is skipped and changes nothing for the others.
\<close>

theorem raw_keys_skip_malformed:
  assumes "getProvider c None = Inr p" and "cfg_privateKeys (c_config c) = Some keys"
  shows "\<exists>c'. initializeWallets lib c = Inr c'
     \<and> (\<forall>k \<in> set keys.
           case Wallet_new lib k of
             Inr w \<Rightarrow> w_address w \<in> fst ` set (c_wallets c')
           | Inl e \<Rightarrow>
               (Err, ''EVM Client'', ''Wallet'',
                  ''Failed to initialize wallet from private key: '' @ toString e)
                \<in> set (c_log c'))
     \<and> c_wallets (init_from_keys lib p c)
         = fold (key_step lib p) (filter (\<lambda>k. \<not> isl (Wallet_new lib k)) keys) (c_wallets c)"
proof -
  let ?c1 = "init_from_keys lib p c"
  let ?c' = "init_from_mnemonic lib p ?c1"
  have run: "initializeWallets lib c = Inr ?c'"
    by (rule initializeWallets_eq [OF assms(1)])
  have each: "case Wallet_new lib k of
             Inr w \<Rightarrow> w_address w \<in> fst ` set (c_wallets ?c')
           | Inl e \<Rightarrow>
               (Err, ''EVM Client'', ''Wallet'',
                  ''Failed to initialize wallet from private key: '' @ toString e)
                \<in> set (c_log ?c')" if k: "k \<in> set keys" for k
  proof (cases "Wallet_new lib k")
    case (Inl e)
    have "(Err, ''EVM Client'', ''Wallet'',
          ''Failed to initialize wallet from private key: '' @ toString e) \<in> set (c_log ?c1)"
      by (rule init_from_keys_failed_logged [OF assms(2) k Inl])
    then show ?thesis using init_from_mnemonic_log [of ?c1 lib p] Inl by auto
  next
    case (Inr w)
    have "w_address w \<in> fst ` set (c_wallets ?c1)"
      using fold_key_step_member [OF k Inr] by (simp add: init_from_keys_wallets [OF assms(2)])
    then show ?thesis using init_from_mnemonic_mono [of ?c1 lib p] Inr by auto
  qed
  have skip: "c_wallets ?c1
      = fold (key_step lib p) (filter (\<lambda>k. \<not> isl (Wallet_new lib k)) keys) (c_wallets c)"
    by (simp add: init_from_keys_wallets [OF assms(2)] fold_key_step_filter)
  from run each skip show ?thesis by blast
qed

lemma wallet_client_provider:
  "getProvider (wallet_client cfg) None = Inr (sample_provider ''mainnet'')"
  by (simp add: getProvider_current wallet_client_def sample_client_def)

lemma wallet_client_fields [simp]:
  "c_config (wallet_client cfg) = cfg" "c_wallets (wallet_client cfg) = []"
  "c_log (wallet_client cfg) = []"
  by (simp_all add: wallet_client_def sample_client_def)

lemma sample_bad_key:
  "Wallet_new sample_ethers ''not a key'' = Inl (External ''invalid private key'')"
  by code_simp

lemma sample_good_key:
  "Wallet_new sample_ethers
     ''0x59c6995e998f97a5a0044966f0945389dc9e86dae88c7a8412f4603b6b78690d''
   = Inr \<lparr>w_address = ''0x70997970C51812dc3A010C7d01b50e0d17dc79C8'',
          w_privateKey = ''0x59c6995e998f97a5a0044966f0945389dc9e86dae88c7a8412f4603b6b78690d'',
          w_path = None, w_provider = None\<rparr>"
  by code_simp

theorem raw_keys_skip_malformed_witness:
  "getProvider (wallet_client keys_config) None = Inr (sample_provider ''mainnet'')
   \<and> cfg_privateKeys (c_config (wallet_client keys_config))
       = Some [''not a key'',
               ''0x59c6995e998f97a5a0044966f0945389dc9e86dae88c7a8412f4603b6b78690d'']
   \<and> Wallet_new sample_ethers ''not a key'' = Inl (External ''invalid private key'')
   \<and> (\<exists>c'. initializeWallets sample_ethers (wallet_client keys_config) = Inr c'
         \<and> ''0x70997970C51812dc3A010C7d01b50e0d17dc79C8'' \<in> fst ` set (c_wallets c')
         \<and> (Err, ''EVM Client'', ''Wallet'',
              ''Failed to initialize wallet from private key: Error: invalid private key'')
             \<in> set (c_log c'))"
proof -
  have a: "getProvider (wallet_client keys_config) None = Inr (sample_provider ''mainnet'')"
    by (rule wallet_client_provider)
  have b: "cfg_privateKeys (c_config (wallet_client keys_config))
       = Some [''not a key'',
               ''0x59c6995e998f97a5a0044966f0945389dc9e86dae88c7a8412f4603b6b78690d'']"
    by (simp add: keys_config_def empty_config_def)
  from raw_keys_skip_malformed [OF a b, of sample_ethers]
  obtain c' where run: "initializeWallets sample_ethers (wallet_client keys_config) = Inr c'"
    and each: "\<forall>k \<in> set [''not a key'',
               ''0x59c6995e998f97a5a0044966f0945389dc9e86dae88c7a8412f4603b6b78690d''].
           case Wallet_new sample_ethers k of
             Inr w \<Rightarrow> w_address w \<in> fst ` set (c_wallets c')
           | Inl e \<Rightarrow>
               (Err, ''EVM Client'', ''Wallet'',
                  ''Failed to initialize wallet from private key: '' @ toString e)
                \<in> set (c_log c')"
    by blast
  from each have "''0x70997970C51812dc3A010C7d01b50e0d17dc79C8'' \<in> fst ` set (c_wallets c')"
    and "(Err, ''EVM Client'', ''Wallet'',
              ''Failed to initialize wallet from private key: Error: invalid private key'')
             \<in> set (c_log c')"
    by (simp_all add: sample_bad_key sample_good_key)
  with run a b sample_bad_key show ?thesis by blast
qed

subsection \<open>Derivation from a seed phrase\<close>

lemma init_hd_failed_logged:
  assumes "i \<le> m" and "m < 10"
    and "\<forall>j. i \<le> j \<and> j < m \<longrightarrow> derive lib phrase (hd_path hdPath startIndex j) = Inr (g j)"
    and "derive lib phrase (hd_path hdPath startIndex m) = Inl e"
  shows "(Err, ''EVM Client'', ''HD Wallet'', ''Failed to initialize HD wallet: '' @ toString e)
     \<in> set (c_log (init_hd lib p phrase hdPath startIndex i c))"
  using assms
proof (induction "m - i" arbitrary: i c)
  case 0
  then have "i = m" by simp
  then show ?case
    using \<open>m < 10\<close> \<open>derive lib phrase (hd_path hdPath startIndex m) = Inl e\<close>
    by (simp add: init_hd.simps [of lib p phrase hdPath startIndex m c])
next
  case (Suc d)
  then have lt: "i < m" by simp
  then have i10: "i < 10" using \<open>m < 10\<close> by simp
  have ok: "derive lib phrase (hd_path hdPath startIndex i) = Inr (g i)"
    using Suc.prems lt by simp
  have d: "d = m - Suc i" using Suc.hyps(2) by simp
  have "Suc i \<le> m" using lt by simp
  from Suc.hyps(1) [OF d this \<open>m < 10\<close>] Suc.prems
  have "\<And>c'. (Err, ''EVM Client'', ''HD Wallet'', ''Failed to initialize HD wallet: '' @ toString e)
     \<in> set (c_log (init_hd lib p phrase hdPath startIndex (Suc i) c'))"
    by simp
  then show ?case
    using i10 ok by (simp add: init_hd.simps [of lib p phrase hdPath startIndex i c])
qed

text \<open>
  C10. Initialization from a seed phrase stops at the first derivation that fails: if the
  derivations at positions \<open>0..i-1\<close> succeed and the one at position \<open>i < 10\<close> fails,
  initialization still completes, the failure is logged once for the whole loop, and the
  pool is the pool after the raw keys with exactly the identities of positions \<open>0..i-1\<close>
  inserted in order. Positions \<open>i..9\<close> contribute nothing: the pool's addresses are
  those held before and those of the first \<open>i\<close> derivations.
\<close>

theorem hd_failure_truncates:
  assumes "getProvider c None = Inr p"
    and "cfg_mnemonic (c_config c) = Some phrase" and "phrase \<noteq> []"
    and "i < 10"
    and "\<forall>j<i. derive lib phrase
            (hd_path (or_else (cfg_hdPath (c_config c)) ''m/44'/60'/0'/0'')
               (case cfg_accountIndex (c_config c) of None \<Rightarrow> 0 | Some a \<Rightarrow> a) j) = Inr (ws j)"
    and "derive lib phrase
            (hd_path (or_else (cfg_hdPath (c_config c)) ''m/44'/60'/0'/0'')
               (case cfg_accountIndex (c_config c) of None \<Rightarrow> 0 | Some a \<Rightarrow> a) i) = Inl e"
  shows "\<exists>c'. initializeWallets lib c = Inr c'
     \<and> c_wallets c' = insert_wallets p (map ws [0 ..< i]) (c_wallets (init_from_keys lib p c))
     \<and> fst ` set (c_wallets c')
         = fst ` set (c_wallets (init_from_keys lib p c)) \<union> (\<lambda>j. w_address (ws j)) ` {..< i}
     \<and> (Err, ''EVM Client'', ''HD Wallet'', ''Failed to initialize HD wallet: '' @ toString e)
         \<in> set (c_log c')"
proof -
  let ?h = "or_else (cfg_hdPath (c_config c)) ''m/44'/60'/0'/0''"
  let ?s = "case cfg_accountIndex (c_config c) of None \<Rightarrow> 0 | Some a \<Rightarrow> a"
  let ?c1 = "init_from_keys lib p c"
  let ?c' = "init_from_mnemonic lib p ?c1"
  have run: "initializeWallets lib c = Inr ?c'"
    by (rule initializeWallets_eq [OF assms(1)])
  have cfg1: "cfg_mnemonic (c_config ?c1) = Some phrase" using assms(2) by simp
  have prefix: "oks (map (\<lambda>j. derive lib phrase (hd_path ?h ?s j)) [0 ..< 10]) = map ws [0 ..< i]"
    by (rule oks_until [where e = e]) (use assms(4-6) in simp_all)
  have ws: "c_wallets ?c' = insert_wallets p (map ws [0 ..< i]) (c_wallets ?c1)"
    using init_from_mnemonic_wallets [OF cfg1 assms(3), of lib p] prefix by simp
  have keys: "fst ` set (c_wallets ?c')
      = fst ` set (c_wallets ?c1) \<union> (\<lambda>j. w_address (ws j)) ` {..< i}"
    by (simp add: ws insert_wallets_keys image_image lessThan_atLeast0)
  have "(Err, ''EVM Client'', ''HD Wallet'', ''Failed to initialize HD wallet: '' @ toString e)
     \<in> set (c_log (init_hd lib p phrase ?h ?s 0 ?c1))"
    by (rule init_hd_failed_logged [where m = i and g = ws]) (use assms(4-6) in simp_all)
  then have logged: "(Err, ''EVM Client'', ''HD Wallet'',
      ''Failed to initialize HD wallet: '' @ toString e) \<in> set (c_log ?c')"
    using cfg1 assms(3) by (simp add: init_from_mnemonic_def)
  from run ws keys logged show ?thesis by blast
qed


lemma wallet_client_no_keys:
  "cfg_privateKeys cfg = None \<Longrightarrow> init_from_keys lib p (wallet_client cfg) = wallet_client cfg"
  by (simp add: init_from_keys_def)

lemma sample_hd5_prefix:
  "\<forall>j \<in> set [0 ..< 5].
     derive sample_ethers sample_phrase (hd_path ''m/44'/60'/0'/0'' 5 j) = Inr (sample_hd_wallet (5 + j))"
  by code_simp

lemma sample_hd5_fails:
  "derive sample_ethers sample_phrase (hd_path ''m/44'/60'/0'/0'' 5 5) = Inl (External ''invalid path'')"
  by code_simp

lemma sample_hd5_keys:
  "map fst (insert_wallets (sample_provider ''mainnet'')
              (map (\<lambda>j. sample_hd_wallet (5 + j)) [0 ..< 5]) [])
   = [''0x9965507D1a55bcC2695C58ba16FB37d819B0A4dc'',
      ''0x976EA74026E726554dB657fA54763abd0C3a0aa9'',
      ''0x14dC79964da2C08b23698B3D3cc7Ca32193d9955'',
      ''0x23618e81E3f5cdF7f54C3d65f7FBc0aBf5B21E8f'',
      ''0xa0Ee7A142d267C1f36714E4a8F75612F20a79720'']"
  by code_simp

theorem hd_failure_truncates_witness:
  "getProvider (wallet_client hd5_config) None = Inr (sample_provider ''mainnet'')
   \<and> cfg_mnemonic (c_config (wallet_client hd5_config)) = Some sample_phrase
   \<and> sample_phrase \<noteq> []
   \<and> (5::nat) < 10
   \<and> derive sample_ethers sample_phrase (hd_path ''m/44'/60'/0'/0'' 5 0) = Inr (sample_hd_wallet 5)
   \<and> derive sample_ethers sample_phrase (hd_path ''m/44'/60'/0'/0'' 5 4) = Inr (sample_hd_wallet 9)
   \<and> derive sample_ethers sample_phrase (hd_path ''m/44'/60'/0'/0'' 5 5)
       = Inl (External ''invalid path'')
   \<and> (\<exists>c'. initializeWallets sample_ethers (wallet_client hd5_config) = Inr c'
         \<and> map fst (c_wallets c')
             = [''0x9965507D1a55bcC2695C58ba16FB37d819B0A4dc'',
                ''0x976EA74026E726554dB657fA54763abd0C3a0aa9'',
                ''0x14dC79964da2C08b23698B3D3cc7Ca32193d9955'',
                ''0x23618e81E3f5cdF7f54C3d65f7FBc0aBf5B21E8f'',
                ''0xa0Ee7A142d267C1f36714E4a8F75612F20a79720'']
         \<and> (Err, ''EVM Client'', ''HD Wallet'',
              ''Failed to initialize HD wallet: Error: invalid path'') \<in> set (c_log c'))"
proof -
  have a: "getProvider (wallet_client hd5_config) None = Inr (sample_provider ''mainnet'')"
    by (rule wallet_client_provider)
  have b: "cfg_mnemonic (c_config (wallet_client hd5_config)) = Some sample_phrase"
    by (simp add: hd5_config_def empty_config_def)
  have c: "sample_phrase \<noteq> []" by (simp add: sample_phrase_def)
  have d: "(5::nat) < 10" by simp
  have h: "or_else (cfg_hdPath (c_config (wallet_client hd5_config))) ''m/44'/60'/0'/0''
      = ''m/44'/60'/0'/0''"
    by (simp add: hd5_config_def empty_config_def or_else_def)
  have s: "(case cfg_accountIndex (c_config (wallet_client hd5_config)) of None \<Rightarrow> 0 | Some a \<Rightarrow> a) = 5"
    by (simp add: hd5_config_def empty_config_def)
  have pre: "\<forall>j<5. derive sample_ethers sample_phrase (hd_path ''m/44'/60'/0'/0'' 5 j)
      = Inr (sample_hd_wallet (5 + j))"
    using sample_hd5_prefix by simp
  have raw: "init_from_keys sample_ethers (sample_provider ''mainnet'') (wallet_client hd5_config)
      = wallet_client hd5_config"
    by (rule wallet_client_no_keys) (simp add: hd5_config_def empty_config_def)
  have pre': "\<forall>j<5. derive sample_ethers sample_phrase
      (hd_path (or_else (cfg_hdPath (c_config (wallet_client hd5_config))) ''m/44'/60'/0'/0'')
         (case cfg_accountIndex (c_config (wallet_client hd5_config)) of None \<Rightarrow> 0 | Some a \<Rightarrow> a) j)
      = Inr (sample_hd_wallet (5 + j))"
    unfolding h s by (rule pre)
  have fails': "derive sample_ethers sample_phrase
      (hd_path (or_else (cfg_hdPath (c_config (wallet_client hd5_config))) ''m/44'/60'/0'/0'')
         (case cfg_accountIndex (c_config (wallet_client hd5_config)) of None \<Rightarrow> 0 | Some a \<Rightarrow> a) 5)
      = Inl (External ''invalid path'')"
    unfolding h s by (rule sample_hd5_fails)
  from hd_failure_truncates [OF a b c d pre' fails']
  obtain c' where run: "initializeWallets sample_ethers (wallet_client hd5_config) = Inr c'"
    and ws: "c_wallets c' = insert_wallets (sample_provider ''mainnet'')
        (map (\<lambda>j. sample_hd_wallet (5 + j)) [0 ..< 5])
        (c_wallets (init_from_keys sample_ethers (sample_provider ''mainnet'') (wallet_client hd5_config)))"
    and logged: "(Err, ''EVM Client'', ''HD Wallet'',
        ''Failed to initialize HD wallet: '' @ toString (External ''invalid path'')) \<in> set (c_log c')"
    by (elim exE conjE)
  have keys: "map fst (c_wallets c')
             = [''0x9965507D1a55bcC2695C58ba16FB37d819B0A4dc'',
                ''0x976EA74026E726554dB657fA54763abd0C3a0aa9'',
                ''0x14dC79964da2C08b23698B3D3cc7Ca32193d9955'',
                ''0x23618e81E3f5cdF7f54C3d65f7FBc0aBf5B21E8f'',
                ''0xa0Ee7A142d267C1f36714E4a8F75612F20a79720'']"
    by (simp add: ws raw sample_hd5_keys)
  have p0: "derive sample_ethers sample_phrase (hd_path ''m/44'/60'/0'/0'' 5 0) = Inr (sample_hd_wallet 5)"
    using pre by simp
  have p4: "derive sample_ethers sample_phrase (hd_path ''m/44'/60'/0'/0'' 5 4) = Inr (sample_hd_wallet 9)"
    using pre by simp
  from logged have logged': "(Err, ''EVM Client'', ''HD Wallet'',
              ''Failed to initialize HD wallet: Error: invalid path'') \<in> set (c_log c')"
    by simp
  from run keys logged'
  have ex: "\<exists>c'. initializeWallets sample_ethers (wallet_client hd5_config) = Inr c'
         \<and> map fst (c_wallets c')
             = [''0x9965507D1a55bcC2695C58ba16FB37d819B0A4dc'',
                ''0x976EA74026E726554dB657fA54763abd0C3a0aa9'',
                ''0x14dC79964da2C08b23698B3D3cc7Ca32193d9955'',
                ''0x23618e81E3f5cdF7f54C3d65f7FBc0aBf5B21E8f'',
                ''0xa0Ee7A142d267C1f36714E4a8F75612F20a79720'']
         \<and> (Err, ''EVM Client'', ''HD Wallet'',
              ''Failed to initialize HD wallet: Error: invalid path'') \<in> set (c_log c')"
    by (intro exI [of _ c'] conjI)
  show ?thesis
    by (intro conjI a b c d p0 p4 sample_hd5_fails ex)
qed

text \<open>
  C6. When a seed phrase is configured and the library derives an identity at each of the
  ten paths of the specification (\<open>hdPath/(accountIndex + i)\<close> for \<open>i\<close> in \<open>[0,10)\<close>, with
  the defaults \<open>m/44'/60'/0'/0\<close> and 0), initialization completes and inserts exactly those
  ten identities, in that order, into the pool left by the raw keys; into an empty pool,
  the addresses listed afterwards are the ten derived addresses in order. The result is
  deterministic in phrase, path and index: any other initialization with these three
  settings, whatever its connection and other settings, yields the same addresses in the
  same order (given the same addresses from its raw keys).
\<close>

theorem hd_initialization:
  assumes "getProvider c None = Inr p"
    and "cfg_mnemonic (c_config c) = Some phrase" and "phrase \<noteq> []"
    and "\<forall>j<10. derive lib phrase
            (spec_hd_paths (cfg_hdPath (c_config c)) (cfg_accountIndex (c_config c)) ! j)
          = Inr (ws j)"
  shows "length (spec_hd_paths (cfg_hdPath (c_config c)) (cfg_accountIndex (c_config c))) = 10
    \<and> (\<exists>c'. initializeWallets lib c = Inr c'
        \<and> c_wallets c' = insert_wallets p (map ws [0 ..< 10]) (c_wallets (init_from_keys lib p c))
        \<and> (c_wallets (init_from_keys lib p c) = []
              \<and> distinct (map (\<lambda>j. w_address (ws j)) [0 ..< 10])
            \<longrightarrow> map fst (c_wallets c') = map (\<lambda>j. w_address (ws j)) [0 ..< 10])
        \<and> (\<forall>c2 p2. getProvider c2 None = Inr p2
              \<and> cfg_mnemonic (c_config c2) = Some phrase
              \<and> cfg_hdPath (c_config c2) = cfg_hdPath (c_config c)
              \<and> cfg_accountIndex (c_config c2) = cfg_accountIndex (c_config c)
              \<and> map fst (c_wallets (init_from_keys lib p2 c2))
                  = map fst (c_wallets (init_from_keys lib p c))
            \<longrightarrow> (\<exists>c2'. initializeWallets lib c2 = Inr c2'
                   \<and> map fst (c_wallets c2') = map fst (c_wallets c'))))"
proof -
  let ?h = "or_else (cfg_hdPath (c_config c)) ''m/44'/60'/0'/0''"
  let ?s = "case cfg_accountIndex (c_config c) of None \<Rightarrow> 0 | Some a \<Rightarrow> a"
  let ?c1 = "init_from_keys lib p c"
  let ?c' = "init_from_mnemonic lib p ?c1"
  have len: "length (spec_hd_paths (cfg_hdPath (c_config c)) (cfg_accountIndex (c_config c))) = 10"
    by (simp add: spec_hd_paths_def)
  have all: "\<forall>j. 0 \<le> j \<and> j < 10 \<longrightarrow> derive lib phrase (hd_path ?h ?s j) = Inr (ws j)"
    using assms(4) by (simp add: spec_hd_paths_nth)
  have oks10: "oks (map (\<lambda>j. derive lib phrase (hd_path ?h ?s j)) [0 ..< 10]) = map ws [0 ..< 10]"
    by (rule oks_all [OF all])
  have pool: "c_wallets (init_from_mnemonic lib q d) = insert_wallets q (map ws [0 ..< 10]) (c_wallets d)"
    if "cfg_mnemonic (c_config d) = Some phrase"
      and "cfg_hdPath (c_config d) = cfg_hdPath (c_config c)"
      and "cfg_accountIndex (c_config d) = cfg_accountIndex (c_config c)" for q d
    using init_from_mnemonic_wallets [OF that(1) assms(3), of lib q] oks10 that(2,3) by simp
  have run: "initializeWallets lib c = Inr ?c'"
    by (rule initializeWallets_eq [OF assms(1)])
  have ws: "c_wallets ?c' = insert_wallets p (map ws [0 ..< 10]) (c_wallets ?c1)"
    by (rule pool) (simp_all add: assms(2))
  have fresh: "map fst (c_wallets ?c') = map (\<lambda>j. w_address (ws j)) [0 ..< 10]"
    if "c_wallets ?c1 = []" and "distinct (map (\<lambda>j. w_address (ws j)) [0 ..< 10])"
  proof -
    have "distinct (map fst ([] :: (string \<times> wallet) list) @ map w_address (map ws [0 ..< 10]))"
      using that(2) by (simp add: comp_def)
    from insert_wallets_fresh [OF this, of p] show ?thesis
      by (simp add: ws that(1) comp_def)
  qed
  have again: "\<exists>c2'. initializeWallets lib c2 = Inr c2'
                   \<and> map fst (c_wallets c2') = map fst (c_wallets ?c')"
    if "getProvider c2 None = Inr p2" and "cfg_mnemonic (c_config c2) = Some phrase"
      and "cfg_hdPath (c_config c2) = cfg_hdPath (c_config c)"
      and "cfg_accountIndex (c_config c2) = cfg_accountIndex (c_config c)"
      and "map fst (c_wallets (init_from_keys lib p2 c2)) = map fst (c_wallets ?c1)" for c2 p2
  proof -
    let ?d1 = "init_from_keys lib p2 c2"
    have "initializeWallets lib c2 = Inr (init_from_mnemonic lib p2 ?d1)"
      by (rule initializeWallets_eq [OF that(1)])
    moreover have "c_wallets (init_from_mnemonic lib p2 ?d1)
        = insert_wallets p2 (map ws [0 ..< 10]) (c_wallets ?d1)"
      by (rule pool) (simp_all add: that(2,3,4))
    ultimately show ?thesis
      using insert_wallets_key_order [OF that(5), of p2 "map ws [0 ..< 10]" p] ws by simp
  qed
  from len run ws fresh again show ?thesis by blast
qed

lemma sample_hd_all:
  "\<forall>j \<in> set [0 ..< 10].
     derive sample_ethers sample_phrase (spec_hd_paths None None ! j) = Inr (sample_hd_wallet j)"
  by code_simp

lemma sample_hd_addresses:
  "map (\<lambda>j. w_address (sample_hd_wallet j)) [0 ..< 10] = map fst sample_accounts"
  by code_simp

lemma sample_accounts_distinct: "distinct (map fst sample_accounts)"
  by code_simp

lemma sample_default_paths:
  "spec_hd_paths None None
     = [''m/44'/60'/0'/0/0'', ''m/44'/60'/0'/0/1'', ''m/44'/60'/0'/0/2'', ''m/44'/60'/0'/0/3'',
        ''m/44'/60'/0'/0/4'', ''m/44'/60'/0'/0/5'', ''m/44'/60'/0'/0/6'', ''m/44'/60'/0'/0/7'',
        ''m/44'/60'/0'/0/8'', ''m/44'/60'/0'/0/9'']"
  by code_simp

lemma sample_hd_first:
  "derive sample_ethers sample_phrase ''m/44'/60'/0'/0/0'' = Inr (sample_hd_wallet 0)"
  by code_simp

lemma sample_hd_last:
  "derive sample_ethers sample_phrase ''m/44'/60'/0'/0/9'' = Inr (sample_hd_wallet 9)"
  by code_simp

theorem hd_initialization_witness:
  "getProvider (wallet_client hd_config) None = Inr (sample_provider ''mainnet'')
   \<and> cfg_mnemonic (c_config (wallet_client hd_config)) = Some sample_phrase
   \<and> sample_phrase \<noteq> []
   \<and> cfg_hdPath (c_config (wallet_client hd_config)) = None
   \<and> cfg_accountIndex (c_config (wallet_client hd_config)) = None
   \<and> spec_hd_paths None None
     = [''m/44'/60'/0'/0/0'', ''m/44'/60'/0'/0/1'', ''m/44'/60'/0'/0/2'', ''m/44'/60'/0'/0/3'',
        ''m/44'/60'/0'/0/4'', ''m/44'/60'/0'/0/5'', ''m/44'/60'/0'/0/6'', ''m/44'/60'/0'/0/7'',
        ''m/44'/60'/0'/0/8'', ''m/44'/60'/0'/0/9'']
   \<and> derive sample_ethers sample_phrase ''m/44'/60'/0'/0/0'' = Inr (sample_hd_wallet 0)
   \<and> derive sample_ethers sample_phrase ''m/44'/60'/0'/0/9'' = Inr (sample_hd_wallet 9)
   \<and> (\<exists>c'. initializeWallets sample_ethers (wallet_client hd_config) = Inr c'
         \<and> map fst (c_wallets c') = map fst sample_accounts
         \<and> length (c_wallets c') = 10)"
proof -
  have a: "getProvider (wallet_client hd_config) None = Inr (sample_provider ''mainnet'')"
    by (rule wallet_client_provider)
  have b: "cfg_mnemonic (c_config (wallet_client hd_config)) = Some sample_phrase"
    by (simp add: hd_config_def empty_config_def)
  have c: "sample_phrase \<noteq> []" by (simp add: sample_phrase_def)
  have h0: "cfg_hdPath hd_config = None" and s0: "cfg_accountIndex hd_config = None"
    by (simp_all add: hd_config_def empty_config_def)
  have h: "cfg_hdPath (c_config (wallet_client hd_config)) = None"
    and s: "cfg_accountIndex (c_config (wallet_client hd_config)) = None"
    by (simp_all add: h0 s0)
  have all: "\<forall>j<10. derive sample_ethers sample_phrase
            (spec_hd_paths (cfg_hdPath (c_config (wallet_client hd_config)))
               (cfg_accountIndex (c_config (wallet_client hd_config))) ! j)
          = Inr (sample_hd_wallet j)"
    using sample_hd_all by (simp add: h0 s0)
  have raw: "c_wallets (init_from_keys sample_ethers (sample_provider ''mainnet'')
                 (wallet_client hd_config)) = []"
    using wallet_client_no_keys [of hd_config sample_ethers "sample_provider ''mainnet''"]
    by (simp add: hd_config_def empty_config_def)
  have dist: "distinct (map (\<lambda>j. w_address (sample_hd_wallet j)) [0 ..< 10])"
    by (simp only: sample_hd_addresses sample_accounts_distinct)
  from hd_initialization [OF a b c all]
  obtain c' where run: "initializeWallets sample_ethers (wallet_client hd_config) = Inr c'"
    and order: "c_wallets (init_from_keys sample_ethers (sample_provider ''mainnet'')
                 (wallet_client hd_config)) = []
              \<and> distinct (map (\<lambda>j. w_address (sample_hd_wallet j)) [0 ..< 10])
            \<longrightarrow> map fst (c_wallets c') = map (\<lambda>j. w_address (sample_hd_wallet j)) [0 ..< 10]"
    by (elim exE conjE)
  from order raw dist
  have "map fst (c_wallets c') = map (\<lambda>j. w_address (sample_hd_wallet j)) [0 ..< 10]"
    by (elim impE conjI)
  then have keys: "map fst (c_wallets c') = map fst sample_accounts"
    by (simp only: sample_hd_addresses)
  have "length (map fst (c_wallets c')) = length (map fst sample_accounts)"
    by (simp only: keys)
  then have len: "length (c_wallets c') = 10" by (simp add: sample_accounts_def)
  from run keys len
  have ex: "\<exists>c'. initializeWallets sample_ethers (wallet_client hd_config) = Inr c'
         \<and> map fst (c_wallets c') = map fst sample_accounts
         \<and> length (c_wallets c') = 10"
    by (intro exI [of _ c'] conjI)
  show ?thesis
    by (intro conjI a b c h s sample_default_paths sample_hd_first sample_hd_last ex)
qed

section \<open>Signer lookup\<close>

lemma wallet_for_address:
  "a \<noteq> [] \<Longrightarrow> wallet_for c (Some a) = map_of (c_wallets c) a"
  by (simp add: wallet_for_def truthy_def)

lemma wallet_for_default:
  "\<not> truthy from \<Longrightarrow> wallet_for c from = (case c_wallets c of [] \<Rightarrow> None | aw # _ \<Rightarrow> Some (snd aw))"
  by (simp add: wallet_for_def)

text \<open>
  C5 (as amended). The identity pool is keyed by the address string exactly as stored, and
  a sender is looked up by that exact string: a non-empty sender address that is a key of
  the pool resolves to the identity stored under it, and one that is not a key, whatever
  keys it matches up to letter case, resolves to nothing, so that \<open>sendTransaction\<close>
  fails with \<open>NoWalletAvailable\<close> before building anything.
\<close>

theorem signer_lookup_is_exact:
  assumes "getProvider c None = Inr p" and "a \<noteq> []"
  shows "(\<forall>w. map_of (c_wallets c) a = Some w \<longrightarrow> wallet_for c (Some a) = Some w)
     \<and> (a \<notin> fst ` set (c_wallets c) \<longrightarrow>
          wallet_for c (Some a) = None
          \<and> sendTransaction lib nd c (request\<lparr>rq_from := Some a\<rparr>)
              = (None, Inl (NoWalletAvailable ''sending transaction'')))"
proof (intro conjI allI impI)
  fix w assume "map_of (c_wallets c) a = Some w"
  then show "wallet_for c (Some a) = Some w" by (simp add: wallet_for_address [OF assms(2)])
next
  assume "a \<notin> fst ` set (c_wallets c)"
  then have none: "map_of (c_wallets c) a = None" by (simp add: map_of_eq_None_iff)
  then show "wallet_for c (Some a) = None" by (simp add: wallet_for_address [OF assms(2)])
  then show "sendTransaction lib nd c (request\<lparr>rq_from := Some a\<rparr>)
              = (None, Inl (NoWalletAvailable ''sending transaction''))"
    by (simp add: sendTransaction_def assms(1))
qed

lemma sample_client_provider:
  "getProvider sample_client None = Inr (sample_provider ''mainnet'')"
  by (simp add: getProvider_current sample_client_def)

lemma sample_client_keys:
  "map fst (c_wallets sample_client)
     = [''0xf39Fd6e51aad88F6F4ce6aB8827279cffFb92266'',
        ''0x70997970C51812dc3A010C7d01b50e0d17dc79C8'']"
  by (simp add: sample_client_def sample_accounts_def)

lemma sample_lower_case:
  "same_but_hex_case ''0xf39fd6e51aad88f6f4ce6ab8827279cfffb92266''
     ''0xf39Fd6e51aad88F6F4ce6aB8827279cffFb92266''"
  by code_simp

lemma sample_lower_absent:
  "''0xf39fd6e51aad88f6f4ce6ab8827279cfffb92266'' \<notin> fst ` set (c_wallets sample_client)"
proof -
  have "''0xf39fd6e51aad88f6f4ce6ab8827279cfffb92266'' \<notin> set (map fst (c_wallets sample_client))"
    unfolding sample_client_keys by simp
  then show ?thesis by simp
qed

text \<open>
  The claim as stated fails: the pool holds an identity whose address differs from the
  request's sender only in letter case, and the sender is not found.
\<close>

theorem lower_case_sender_not_found:
  "''0xf39Fd6e51aad88F6F4ce6aB8827279cffFb92266'' \<in> set (map fst (c_wallets sample_client))
   \<and> rq_from lower_from_request = Some ''0xf39fd6e51aad88f6f4ce6ab8827279cfffb92266''
   \<and> same_but_hex_case ''0xf39fd6e51aad88f6f4ce6ab8827279cfffb92266''
        ''0xf39Fd6e51aad88F6F4ce6aB8827279cffFb92266''
   \<and> sendTransaction sample_ethers sample_node sample_client lower_from_request
       = (None, Inl (NoWalletAvailable ''sending transaction''))"
proof -
  have held: "''0xf39Fd6e51aad88F6F4ce6aB8827279cffFb92266'' \<in> set (map fst (c_wallets sample_client))"
    unfolding sample_client_keys by simp
  have sender: "rq_from lower_from_request = Some ''0xf39fd6e51aad88f6f4ce6ab8827279cfffb92266''"
    by (simp add: lower_from_request_def sample_request_def)
  have "map_of (c_wallets sample_client) ''0xf39fd6e51aad88f6f4ce6ab8827279cfffb92266'' = None"
    using sample_lower_absent by (simp add: map_of_eq_None_iff)
  then have "wallet_for sample_client (rq_from lower_from_request) = None"
    by (simp add: sender wallet_for_address)
  then have "sendTransaction sample_ethers sample_node sample_client lower_from_request
       = (None, Inl (NoWalletAvailable ''sending transaction''))"
    by (simp add: sendTransaction_def sample_client_provider)
  with held sender sample_lower_case show ?thesis by (intro conjI)
qed

theorem signer_lookup_is_exact_witness:
  "getProvider sample_client None = Inr (sample_provider ''mainnet'')
   \<and> ''0xf39fd6e51aad88f6f4ce6ab8827279cfffb92266'' \<noteq> []
   \<and> ''0xf39fd6e51aad88f6f4ce6ab8827279cfffb92266'' \<notin> fst ` set (c_wallets sample_client)
   \<and> wallet_for sample_client (Some ''0xf39fd6e51aad88f6f4ce6ab8827279cfffb92266'') = None
   \<and> sendTransaction sample_ethers sample_node sample_client
        (sample_request\<lparr>rq_from := Some ''0xf39fd6e51aad88f6f4ce6ab8827279cfffb92266''\<rparr>)
       = (None, Inl (NoWalletAvailable ''sending transaction''))
   \<and> ''0x70997970C51812dc3A010C7d01b50e0d17dc79C8'' \<noteq> []
   \<and> map_of (c_wallets sample_client) ''0x70997970C51812dc3A010C7d01b50e0d17dc79C8''
       = Some (connect (sample_wallet (sample_accounts ! 1) None) (sample_provider ''mainnet''))
   \<and> wallet_for sample_client (Some ''0x70997970C51812dc3A010C7d01b50e0d17dc79C8'')
       = Some (connect (sample_wallet (sample_accounts ! 1) None) (sample_provider ''mainnet''))"
proof -
  have ne: "''0xf39fd6e51aad88f6f4ce6ab8827279cfffb92266'' \<noteq> []" by simp
  have ne2: "''0x70997970C51812dc3A010C7d01b50e0d17dc79C8'' \<noteq> []" by simp
  have held: "map_of (c_wallets sample_client) ''0x70997970C51812dc3A010C7d01b50e0d17dc79C8''
       = Some (connect (sample_wallet (sample_accounts ! 1) None) (sample_provider ''mainnet''))"
    by (simp add: sample_client_def sample_accounts_def)
  note low = signer_lookup_is_exact [OF sample_client_provider ne,
      of sample_ethers sample_node sample_request]
  note up = signer_lookup_is_exact [OF sample_client_provider ne2,
      of sample_ethers sample_node sample_request]
  note l12 = mp [OF conjunct2 [OF low] sample_lower_absent]
  have l1: "wallet_for sample_client (Some ''0xf39fd6e51aad88f6f4ce6ab8827279cfffb92266'') = None"
    by (rule conjunct1 [OF l12])
  have l2: "sendTransaction sample_ethers sample_node sample_client
        (sample_request\<lparr>rq_from := Some ''0xf39fd6e51aad88f6f4ce6ab8827279cfffb92266''\<rparr>)
       = (None, Inl (NoWalletAvailable ''sending transaction''))"
    by (rule conjunct2 [OF l12])
  have u1: "wallet_for sample_client (Some ''0x70997970C51812dc3A010C7d01b50e0d17dc79C8'')
       = Some (connect (sample_wallet (sample_accounts ! 1) None) (sample_provider ''mainnet''))"
    by (rule mp [OF spec [OF conjunct1 [OF up]] held])
  show ?thesis
    by (intro conjI sample_client_provider ne sample_lower_absent l1 l2 ne2 held u1)
qed

section \<open>Fee fields\<close>

lemma opt_BigInt_falsy: "\<not> truthy s \<Longrightarrow> opt_BigInt s = Inr None"
  by (simp add: opt_BigInt_def)

lemma opt_BigInt_truthy:
  "truthy s \<Longrightarrow> opt_BigInt s = Inr r \<Longrightarrow> \<exists>t n. s = Some t \<and> BigInt t = Inr n \<and> r = Some n"
  by (auto simp: opt_BigInt_def truthy_def split: option.splits sum.splits)

lemma opt_BigInt_parses: "parses s \<Longrightarrow> \<exists>r. opt_BigInt s = Inr r"
  by (auto simp: opt_BigInt_def parses_def split: option.splits sum.splits)

lemma build_tx_fee_fields:
  assumes "build_tx lib request = Inr tx"
  shows "(truthy (rq_maxFeePerGas request) \<and> truthy (rq_maxPriorityFeePerGas request) \<longrightarrow>
            (\<exists>f p a b. rq_maxFeePerGas request = Some f \<and> BigInt f = Inr a
               \<and> rq_maxPriorityFeePerGas request = Some p \<and> BigInt p = Inr b
               \<and> tx_maxFeePerGas tx = Some a \<and> tx_maxPriorityFeePerGas tx = Some b
               \<and> tx_gasPrice tx = None))
       \<and> (\<not> (truthy (rq_maxFeePerGas request) \<and> truthy (rq_maxPriorityFeePerGas request))
            \<and> truthy (rq_gasPrice request) \<longrightarrow>
            (\<exists>g a. rq_gasPrice request = Some g \<and> BigInt g = Inr a
               \<and> tx_gasPrice tx = Some a
               \<and> tx_maxFeePerGas tx = None \<and> tx_maxPriorityFeePerGas tx = None))
       \<and> (\<not> (truthy (rq_maxFeePerGas request) \<and> truthy (rq_maxPriorityFeePerGas request))
            \<and> \<not> truthy (rq_gasPrice request) \<longrightarrow>
            tx_gasPrice tx = None \<and> tx_maxFeePerGas tx = None
              \<and> tx_maxPriorityFeePerGas tx = None)"
proof -
  from assms obtain v gl where v: "ether_value lib (rq_value request) = Inr v"
    and gl: "opt_BigInt (rq_gasLimit request) = Inr gl"
    by (auto simp: build_tx_def Let_def split: sum.splits)
  show ?thesis
  proof (cases "truthy (rq_maxFeePerGas request) \<and> truthy (rq_maxPriorityFeePerGas request)")
    case True
    with assms v gl obtain mf mp where mf: "opt_BigInt (rq_maxFeePerGas request) = Inr mf"
      and mp: "opt_BigInt (rq_maxPriorityFeePerGas request) = Inr mp"
      and tx: "tx_maxFeePerGas tx = mf" "tx_maxPriorityFeePerGas tx = mp" "tx_gasPrice tx = None"
      by (auto simp: build_tx_def Let_def split: sum.splits)
    from opt_BigInt_truthy [OF _ mf] opt_BigInt_truthy [OF _ mp] True tx
    show ?thesis by auto
  next
    case False
    show ?thesis
    proof (cases "truthy (rq_gasPrice request)")
      case True
      with assms v gl False obtain gp where gp: "opt_BigInt (rq_gasPrice request) = Inr gp"
        and tx: "tx_gasPrice tx = gp" "tx_maxFeePerGas tx = None" "tx_maxPriorityFeePerGas tx = None"
        by (auto simp: build_tx_def Let_def split: sum.splits)
      from opt_BigInt_truthy [OF True gp] tx False True show ?thesis by auto
    next
      case gpf: False
      with assms v gl False
      have "tx_gasPrice tx = None" "tx_maxFeePerGas tx = None" "tx_maxPriorityFeePerGas tx = None"
        by (auto simp: build_tx_def Let_def split: sum.splits)
      with False gpf show ?thesis by auto
    qed
  qed
qed

lemma build_tx_succeeds:
  assumes "ether_value lib (rq_value request) = Inr v"
    and "parses (rq_gasLimit request)"
    and "if truthy (rq_maxFeePerGas request) \<and> truthy (rq_maxPriorityFeePerGas request)
         then parses (rq_maxFeePerGas request) \<and> parses (rq_maxPriorityFeePerGas request)
         else parses (rq_gasPrice request)"
  shows "\<exists>tx. build_tx lib request = Inr tx"
proof -
  from opt_BigInt_parses [OF assms(2)]
  obtain gl where gl: "opt_BigInt (rq_gasLimit request) = Inr gl" ..
  show ?thesis
  proof (cases "truthy (rq_maxFeePerGas request) \<and> truthy (rq_maxPriorityFeePerGas request)")
    case True
    with assms(3) have "parses (rq_maxFeePerGas request)" "parses (rq_maxPriorityFeePerGas request)"
      by simp_all
    then obtain mf mp where "opt_BigInt (rq_maxFeePerGas request) = Inr mf"
      and "opt_BigInt (rq_maxPriorityFeePerGas request) = Inr mp"
      using opt_BigInt_parses by blast
    then show ?thesis using assms(1) gl True by (simp add: build_tx_def Let_def)
  next
    case False
    with assms(3) have "parses (rq_gasPrice request)" by simp
    then obtain gp where "opt_BigInt (rq_gasPrice request) = Inr gp"
      using opt_BigInt_parses by blast
    then show ?thesis using assms(1) gl False by (auto simp: build_tx_def Let_def)
  qed
qed

lemma sendTransaction_submitted:
  "fst (sendTransaction lib nd c request) = Some tx \<Longrightarrow> build_tx lib request = Inr tx"
  by (auto simp: sendTransaction_def split: sum.splits option.splits)

lemma sendTransaction_submits:
  assumes "getProvider c None = Inr p" and "wallet_for c (rq_from request) = Some w"
    and "build_tx lib request = Inr tx"
  shows "fst (sendTransaction lib nd c request) = Some tx"
  using assms by (simp add: sendTransaction_def)

lemma is_digit_ascii:
  "is_digit ch \<Longrightarrow> \<not> is_ws ch \<and> ch \<noteq> CHR ''x'' \<and> ch \<noteq> CHR ''X'' \<and> ch \<noteq> CHR ''o''
     \<and> ch \<noteq> CHR ''O'' \<and> ch \<noteq> CHR ''b'' \<and> ch \<noteq> CHR ''B'' \<and> ch \<noteq> CHR ''+'' \<and> ch \<noteq> CHR ''-''"
  by (auto simp: is_digit_def is_ws_def)

lemma is_digit_val: "is_digit ch \<Longrightarrow> \<exists>d. digit_val ch = Some d \<and> d < 10"
  by (auto simp: is_digit_def digit_val_def Let_def)

lemma digits_acc_decimal: "list_all is_digit s \<Longrightarrow> \<exists>n. digits_acc 10 s acc = Some n"
proof (induction s arbitrary: acc)
  case Nil
  show ?case by simp
next
  case (Cons ch s)
  then obtain d where "digit_val ch = Some d" "d < 10" using is_digit_val by auto
  then show ?case using Cons by simp
qed

lemma trim_decimal: "decimal s \<Longrightarrow> trim s = s"
proof -
  assume d: "decimal s"
  then have ne: "s \<noteq> []" and all: "list_all is_digit s" by (simp_all add: decimal_def)
  from ne all have "\<not> is_ws (hd s)" using is_digit_ascii by (cases s) auto
  then have 1: "dropWhile is_ws s = s" by (simp add: dropWhile_eq_self_iff)
  from ne all have "is_digit (last s)" by (simp add: list_all_iff)
  then have "\<not> is_ws (hd (rev s))" using ne is_digit_ascii by (simp add: hd_rev)
  then have 2: "dropWhile is_ws (rev s) = rev s" by (simp add: dropWhile_eq_self_iff)
  show ?thesis by (simp add: trim_def 1 2)
qed

lemma BigInt_decimal: "decimal s \<Longrightarrow> \<exists>n. BigInt s = Inr n"
proof -
  assume d: "decimal s"
  then obtain ch cs where s: "s = ch # cs" and ch: "is_digit ch" and cs: "list_all is_digit cs"
    by (cases s) (auto simp: decimal_def)
  from digits_acc_decimal [of s 0] d obtain n where n: "digits_acc 10 s 0 = Some n"
    by (auto simp: decimal_def)
  have second: "cs = [] \<or> is_digit (hd cs)" using cs by (cases cs) auto
  have pre: "take 2 s \<noteq> ''0x''" "take 2 s \<noteq> ''0X''" "take 2 s \<noteq> ''0o''" "take 2 s \<noteq> ''0O''"
    "take 2 s \<noteq> ''0b''" "take 2 s \<noteq> ''0B''"
    using second is_digit_ascii by (cases cs; auto simp: s)+
  have sign: "hd s \<noteq> CHR ''+''" "hd s \<noteq> CHR ''-''"
    using ch is_digit_ascii by (auto simp: s)
  have "s \<noteq> []" by (simp add: s)
  then have "BigInt s = Inr n"
    using pre sign n by (simp add: BigInt_def trim_decimal [OF d] Let_def parse_digits_def)
  then show ?thesis ..
qed

lemma parses_decimal: "decimal s \<Longrightarrow> parses (Some s)"
  using BigInt_decimal [of s] by (auto simp: parses_def)

text \<open>
  C1. Every transaction that \<open>sendTransaction\<close> hands to the wallet has its fee fields set
  by this rule, where a field counts as present when it is supplied and not the empty
  string (the code's test, and the only reading under which a field is a decimal string):
  if both \<open>maxFeePerGas\<close> and \<open>maxPriorityFeePerGas\<close> are present, the two fee fields carry
  their values and no \<open>gasPrice\<close> is set, whatever legacy price was supplied; else if
  \<open>gasPrice\<close> is present, it alone is set; else no fee field is set. A transaction is
  handed over whenever the connection and the signer exist, the value converts, and the
  gas limit and the fee fields the rule selects are numerals \<^verbatim>\<open>BigInt\<close> accepts.
\<close>

theorem fee_field_selection:
  "(\<forall>tx. fst (sendTransaction lib nd c request) = Some tx \<longrightarrow>
      (truthy (rq_maxFeePerGas request) \<and> truthy (rq_maxPriorityFeePerGas request) \<longrightarrow>
            (\<exists>f p a b. rq_maxFeePerGas request = Some f \<and> BigInt f = Inr a
               \<and> rq_maxPriorityFeePerGas request = Some p \<and> BigInt p = Inr b
               \<and> tx_maxFeePerGas tx = Some a \<and> tx_maxPriorityFeePerGas tx = Some b
               \<and> tx_gasPrice tx = None))
       \<and> (\<not> (truthy (rq_maxFeePerGas request) \<and> truthy (rq_maxPriorityFeePerGas request))
            \<and> truthy (rq_gasPrice request) \<longrightarrow>
            (\<exists>g a. rq_gasPrice request = Some g \<and> BigInt g = Inr a
               \<and> tx_gasPrice tx = Some a
               \<and> tx_maxFeePerGas tx = None \<and> tx_maxPriorityFeePerGas tx = None))
       \<and> (\<not> (truthy (rq_maxFeePerGas request) \<and> truthy (rq_maxPriorityFeePerGas request))
            \<and> \<not> truthy (rq_gasPrice request) \<longrightarrow>
            tx_gasPrice tx = None \<and> tx_maxFeePerGas tx = None
              \<and> tx_maxPriorityFeePerGas tx = None))
   \<and> (\<forall>p w v. getProvider c None = Inr p \<and> wallet_for c (rq_from request) = Some w
          \<and> ether_value lib (rq_value request) = Inr v
          \<and> parses (rq_gasLimit request)
          \<and> (if truthy (rq_maxFeePerGas request) \<and> truthy (rq_maxPriorityFeePerGas request)
              then parses (rq_maxFeePerGas request) \<and> parses (rq_maxPriorityFeePerGas request)
              else parses (rq_gasPrice request))
        \<longrightarrow> (\<exists>tx. fst (sendTransaction lib nd c request) = Some tx))"
proof (intro conjI allI)
  fix tx
  show "fst (sendTransaction lib nd c request) = Some tx \<longrightarrow>
      (truthy (rq_maxFeePerGas request) \<and> truthy (rq_maxPriorityFeePerGas request) \<longrightarrow>
            (\<exists>f p a b. rq_maxFeePerGas request = Some f \<and> BigInt f = Inr a
               \<and> rq_maxPriorityFeePerGas request = Some p \<and> BigInt p = Inr b
               \<and> tx_maxFeePerGas tx = Some a \<and> tx_maxPriorityFeePerGas tx = Some b
               \<and> tx_gasPrice tx = None))
       \<and> (\<not> (truthy (rq_maxFeePerGas request) \<and> truthy (rq_maxPriorityFeePerGas request))
            \<and> truthy (rq_gasPrice request) \<longrightarrow>
            (\<exists>g a. rq_gasPrice request = Some g \<and> BigInt g = Inr a
               \<and> tx_gasPrice tx = Some a
               \<and> tx_maxFeePerGas tx = None \<and> tx_maxPriorityFeePerGas tx = None))
       \<and> (\<not> (truthy (rq_maxFeePerGas request) \<and> truthy (rq_maxPriorityFeePerGas request))
            \<and> \<not> truthy (rq_gasPrice request) \<longrightarrow>
            tx_gasPrice tx = None \<and> tx_maxFeePerGas tx = None
              \<and> tx_maxPriorityFeePerGas tx = None)"
  proof
    assume "fst (sendTransaction lib nd c request) = Some tx"
    then have "build_tx lib request = Inr tx" by (rule sendTransaction_submitted)
    then show "(truthy (rq_maxFeePerGas request) \<and> truthy (rq_maxPriorityFeePerGas request) \<longrightarrow>
            (\<exists>f p a b. rq_maxFeePerGas request = Some f \<and> BigInt f = Inr a
               \<and> rq_maxPriorityFeePerGas request = Some p \<and> BigInt p = Inr b
               \<and> tx_maxFeePerGas tx = Some a \<and> tx_maxPriorityFeePerGas tx = Some b
               \<and> tx_gasPrice tx = None))
       \<and> (\<not> (truthy (rq_maxFeePerGas request) \<and> truthy (rq_maxPriorityFeePerGas request))
            \<and> truthy (rq_gasPrice request) \<longrightarrow>
            (\<exists>g a. rq_gasPrice request = Some g \<and> BigInt g = Inr a
               \<and> tx_gasPrice tx = Some a
               \<and> tx_maxFeePerGas tx = None \<and> tx_maxPriorityFeePerGas tx = None))
       \<and> (\<not> (truthy (rq_maxFeePerGas request) \<and> truthy (rq_maxPriorityFeePerGas request))
            \<and> \<not> truthy (rq_gasPrice request) \<longrightarrow>
            tx_gasPrice tx = None \<and> tx_maxFeePerGas tx = None
              \<and> tx_maxPriorityFeePerGas tx = None)"
      by (rule build_tx_fee_fields)
  qed
next
  fix p w v
  show "getProvider c None = Inr p \<and> wallet_for c (rq_from request) = Some w
          \<and> ether_value lib (rq_value request) = Inr v
          \<and> parses (rq_gasLimit request)
          \<and> (if truthy (rq_maxFeePerGas request) \<and> truthy (rq_maxPriorityFeePerGas request)
              then parses (rq_maxFeePerGas request) \<and> parses (rq_maxPriorityFeePerGas request)
              else parses (rq_gasPrice request))
        \<longrightarrow> (\<exists>tx. fst (sendTransaction lib nd c request) = Some tx)"
  proof
    assume a: "getProvider c None = Inr p \<and> wallet_for c (rq_from request) = Some w
          \<and> ether_value lib (rq_value request) = Inr v
          \<and> parses (rq_gasLimit request)
          \<and> (if truthy (rq_maxFeePerGas request) \<and> truthy (rq_maxPriorityFeePerGas request)
              then parses (rq_maxFeePerGas request) \<and> parses (rq_maxPriorityFeePerGas request)
              else parses (rq_gasPrice request))"
    then obtain tx where "build_tx lib request = Inr tx"
      using build_tx_succeeds [of lib request v] by blast
    with a have "fst (sendTransaction lib nd c request) = Some tx"
      using sendTransaction_submits by blast
    then show "\<exists>tx. fst (sendTransaction lib nd c request) = Some tx" ..
  qed
qed

lemma both_fees_submitted:
  "fst (sendTransaction sample_ethers sample_node sample_client both_fees_request)
     = Some (sample_tx\<lparr>tx_maxFeePerGas := Some 10, tx_maxPriorityFeePerGas := Some 1\<rparr>)"
  by code_simp

lemma legacy_submitted:
  "fst (sendTransaction sample_ethers sample_node sample_client legacy_request)
     = Some (sample_tx\<lparr>tx_gasPrice := Some 5\<rparr>)"
  by code_simp

lemma plain_submitted:
  "fst (sendTransaction sample_ethers sample_node sample_client sample_request) = Some sample_tx"
  by code_simp

lemma sample_truthy:
  "truthy (rq_maxFeePerGas both_fees_request)" "truthy (rq_maxPriorityFeePerGas both_fees_request)"
  "rq_gasPrice both_fees_request = Some ''5''"
  "\<not> truthy (rq_maxFeePerGas legacy_request)" "truthy (rq_gasPrice legacy_request)"
  "\<not> truthy (rq_maxFeePerGas sample_request)" "\<not> truthy (rq_gasPrice sample_request)"
  by (simp_all add: both_fees_request_def legacy_request_def sample_request_def truthy_def)

theorem fee_field_selection_witness:
  "fst (sendTransaction sample_ethers sample_node sample_client both_fees_request)
     = Some (sample_tx\<lparr>tx_maxFeePerGas := Some 10, tx_maxPriorityFeePerGas := Some 1\<rparr>)
   \<and> truthy (rq_maxFeePerGas both_fees_request)
   \<and> truthy (rq_maxPriorityFeePerGas both_fees_request)
   \<and> rq_gasPrice both_fees_request = Some ''5''
   \<and> tx_gasPrice (sample_tx\<lparr>tx_maxFeePerGas := Some 10, tx_maxPriorityFeePerGas := Some 1\<rparr>) = None
   \<and> fst (sendTransaction sample_ethers sample_node sample_client legacy_request)
       = Some (sample_tx\<lparr>tx_gasPrice := Some 5\<rparr>)
   \<and> \<not> truthy (rq_maxFeePerGas legacy_request)
   \<and> truthy (rq_gasPrice legacy_request)
   \<and> tx_maxFeePerGas (sample_tx\<lparr>tx_gasPrice := Some 5\<rparr>) = None
   \<and> tx_maxPriorityFeePerGas (sample_tx\<lparr>tx_gasPrice := Some 5\<rparr>) = None
   \<and> fst (sendTransaction sample_ethers sample_node sample_client sample_request) = Some sample_tx
   \<and> \<not> truthy (rq_maxFeePerGas sample_request)
   \<and> \<not> truthy (rq_gasPrice sample_request)
   \<and> tx_gasPrice sample_tx = None
   \<and> tx_maxFeePerGas sample_tx = None
   \<and> tx_maxPriorityFeePerGas sample_tx = None"
proof -
  let ?both = "sample_tx\<lparr>tx_maxFeePerGas := Some 10, tx_maxPriorityFeePerGas := Some 1\<rparr>"
  let ?legacy = "sample_tx\<lparr>tx_gasPrice := Some 5\<rparr>"
  note b = mp [OF spec [OF conjunct1 [OF fee_field_selection]] both_fees_submitted]
  note l = mp [OF spec [OF conjunct1 [OF fee_field_selection]] legacy_submitted]
  note n = mp [OF spec [OF conjunct1 [OF fee_field_selection]] plain_submitted]
  have nl: "\<not> (truthy (rq_maxFeePerGas legacy_request)
              \<and> truthy (rq_maxPriorityFeePerGas legacy_request))"
    using sample_truthy(4) by (rule contrapos_nn) (rule conjunct1)
  have nn: "\<not> (truthy (rq_maxFeePerGas sample_request)
              \<and> truthy (rq_maxPriorityFeePerGas sample_request))"
    using sample_truthy(6) by (rule contrapos_nn) (rule conjunct1)
  note b' = mp [OF conjunct1 [OF b] conjI [OF sample_truthy(1) sample_truthy(2)]]
  note l' = mp [OF conjunct1 [OF conjunct2 [OF l]] conjI [OF nl sample_truthy(5)]]
  note n' = mp [OF conjunct2 [OF conjunct2 [OF n]] conjI [OF nn sample_truthy(7)]]
  from b' have b1: "tx_gasPrice ?both = None"
    by (elim exE conjE)
  from l' have l1: "tx_maxFeePerGas ?legacy = None"
    by (elim exE conjE)
  from l' have l2: "tx_maxPriorityFeePerGas ?legacy = None"
    by (elim exE conjE)
  have n1: "tx_gasPrice sample_tx = None" by (rule conjunct1 [OF n'])
  have n2: "tx_maxFeePerGas sample_tx = None" by (rule conjunct1 [OF conjunct2 [OF n']])
  have n3: "tx_maxPriorityFeePerGas sample_tx = None" by (rule conjunct2 [OF conjunct2 [OF n']])
  show ?thesis
    by (intro conjI both_fees_submitted sample_truthy b1 legacy_submitted l1 l2
        plain_submitted n1 n2 n3)
qed

section \<open>Gas estimation\<close>

lemma getProvider_wallets [simp]:
  "getProvider (c\<lparr>c_wallets := ws\<rparr>) network = getProvider c network"
  by (simp add: getProvider_def)

text \<open>
  C4 (as amended). \<open>estimateGas\<close> converts the value and defaults the data as
  \<open>sendTransaction\<close> does, but it resolves no signer: its outcome is the same whatever
  identities the pool holds, the request's \<open>from\<close> goes to the node as it is, and with a
  connection, a convertible value and a node that answers it returns an estimate, also
  when the pool is empty.
\<close>

theorem estimateGas_needs_no_identity:
  "estimateGas lib nd (c\<lparr>c_wallets := ws\<rparr>) request = estimateGas lib nd c request
   \<and> (\<forall>p v g fd.
         getProvider c None = Inr p \<and> ether_value lib (rq_value request) = Inr v
         \<and> n_estimateGas nd p
             \<lparr>tx_to = rq_to request, tx_from = rq_from request, tx_value = v,
              tx_data = or_else (rq_data request) ''0x'', tx_nonce = None, tx_chainId = None,
              tx_gasLimit = None, tx_gasPrice = None, tx_maxFeePerGas = None,
              tx_maxPriorityFeePerGas = None\<rparr> = Inr g
         \<and> n_getFeeData nd p = Inr fd
       \<longrightarrow> (\<exists>r. estimateGas lib nd c request = Inr r \<and> ge_gasLimit r = show_int g))"
proof (intro conjI allI impI)
  show "estimateGas lib nd (c\<lparr>c_wallets := ws\<rparr>) request = estimateGas lib nd c request"
    by (simp add: estimateGas_def)
next
  fix p v g fd
  assume "getProvider c None = Inr p \<and> ether_value lib (rq_value request) = Inr v
         \<and> n_estimateGas nd p
             \<lparr>tx_to = rq_to request, tx_from = rq_from request, tx_value = v,
              tx_data = or_else (rq_data request) ''0x'', tx_nonce = None, tx_chainId = None,
              tx_gasLimit = None, tx_gasPrice = None, tx_maxFeePerGas = None,
              tx_maxPriorityFeePerGas = None\<rparr> = Inr g
         \<and> n_getFeeData nd p = Inr fd"
  then show "\<exists>r. estimateGas lib nd c request = Inr r \<and> ge_gasLimit r = show_int g"
    by (simp add: estimateGas_def Let_def)
qed

lemma empty_pool_estimate:
  "estimateGas sample_ethers sample_node (wallet_client empty_config) sample_request
     = Inr \<lparr>ge_gasLimit = ''21000'', ge_gasPrice = None,
            ge_maxFeePerGas = Some ''40000000000'',
            ge_maxPriorityFeePerGas = Some ''1000000000'',
            ge_estimatedCost = ''0.00084''\<rparr>"
  by code_simp

lemma empty_pool_send:
  "sendTransaction sample_ethers sample_node (wallet_client empty_config) sample_request
     = (None, Inl (NoWalletAvailable ''sending transaction''))"
  by code_simp

text \<open>
  The claim as stated fails: with an empty identity pool \<open>estimateGas\<close> returns an
  estimate, on the request for which \<open>sendTransaction\<close> finds no signer.
\<close>

theorem estimateGas_with_empty_pool:
  "c_wallets (wallet_client empty_config) = []
   \<and> wallet_for (wallet_client empty_config) (rq_from sample_request) = None
   \<and> sendTransaction sample_ethers sample_node (wallet_client empty_config) sample_request
       = (None, Inl (NoWalletAvailable ''sending transaction''))
   \<and> estimateGas sample_ethers sample_node (wallet_client empty_config) sample_request
       = Inr \<lparr>ge_gasLimit = ''21000'', ge_gasPrice = None,
              ge_maxFeePerGas = Some ''40000000000'',
              ge_maxPriorityFeePerGas = Some ''1000000000'',
              ge_estimatedCost = ''0.00084''\<rparr>"
proof -
  have a: "c_wallets (wallet_client empty_config) = []"
    by (simp add: wallet_client_def)
  have b: "wallet_for (wallet_client empty_config) (rq_from sample_request) = None"
    by (simp add: wallet_for_def wallet_client_def sample_request_def truthy_def)
  show ?thesis by (intro conjI a b empty_pool_send empty_pool_estimate)
qed

theorem estimateGas_needs_no_identity_witness:
  "getProvider sample_client None = Inr (sample_provider ''mainnet'')
   \<and> ether_value sample_ethers (rq_value sample_request) = Inr 100000000000000000
   \<and> n_estimateGas sample_node (sample_provider ''mainnet'')
             \<lparr>tx_to = rq_to sample_request, tx_from = rq_from sample_request,
              tx_value = 100000000000000000,
              tx_data = or_else (rq_data sample_request) ''0x'', tx_nonce = None, tx_chainId = None,
              tx_gasLimit = None, tx_gasPrice = None, tx_maxFeePerGas = None,
              tx_maxPriorityFeePerGas = None\<rparr> = Inr 21000
   \<and> n_getFeeData sample_node (sample_provider ''mainnet'')
       = Inr \<lparr>fd_gasPrice = Some 20000000000, fd_maxFeePerGas = Some 40000000000,
              fd_maxPriorityFeePerGas = Some 1000000000\<rparr>
   \<and> (\<exists>r. estimateGas sample_ethers sample_node sample_client sample_request = Inr r
         \<and> ge_gasLimit r = show_int 21000)
   \<and> estimateGas sample_ethers sample_node (sample_client\<lparr>c_wallets := []\<rparr>) sample_request
       = estimateGas sample_ethers sample_node sample_client sample_request"
proof -
  have a: "getProvider sample_client None = Inr (sample_provider ''mainnet'')"
    by (simp add: getProvider_current sample_client_def)
  have b: "ether_value sample_ethers (rq_value sample_request) = Inr 100000000000000000"
    by code_simp
  have c: "n_estimateGas sample_node (sample_provider ''mainnet'')
             \<lparr>tx_to = rq_to sample_request, tx_from = rq_from sample_request,
              tx_value = 100000000000000000,
              tx_data = or_else (rq_data sample_request) ''0x'', tx_nonce = None, tx_chainId = None,
              tx_gasLimit = None, tx_gasPrice = None, tx_maxFeePerGas = None,
              tx_maxPriorityFeePerGas = None\<rparr> = Inr 21000"
    by (simp add: sample_node_def)
  have d: "n_getFeeData sample_node (sample_provider ''mainnet'')
       = Inr \<lparr>fd_gasPrice = Some 20000000000, fd_maxFeePerGas = Some 40000000000,
              fd_maxPriorityFeePerGas = Some 1000000000\<rparr>"
    by (simp add: sample_node_def)
  note t = estimateGas_needs_no_identity [where lib = sample_ethers and nd = sample_node
      and c = sample_client and ws = "[]" and request = sample_request]
  have e: "\<exists>r. estimateGas sample_ethers sample_node sample_client sample_request = Inr r
         \<and> ge_gasLimit r = show_int 21000"
    by (rule mp [OF spec [OF spec [OF spec [OF spec [OF conjunct2 [OF t]]]]]
          conjI [OF a conjI [OF b conjI [OF c d]]]])
  show ?thesis by (intro conjI a b c d e conjunct1 [OF t])
qed

section \<open>Name resolution\<close>

text \<open>
  C9 (as amended). Of the lookups of \<open>resolveENS\<close> only the avatar lookup is best-effort.
  With a connection and an answered address lookup: a rejected resolver lookup, or a
  resolver whose address cannot be read, fails the whole call with that error; a name
  without resolver yields the record with name and address only; and with a resolver whose
  address is read, the call returns a record with name, address and resolver whatever the
  avatar lookup does, the avatar being set only when that lookup answers a non-empty
  string. A rejected address lookup fails the call as well.
\<close>

theorem resolveENS_best_effort_avatar_only:
  assumes "getProvider c None = Inr p"
  shows "(\<forall>e. n_resolveName nd p name = Inl e \<longrightarrow> resolveENS nd c name = Inl e)
     \<and> (\<forall>address. n_resolveName nd p name = Inr address \<longrightarrow>
          (\<forall>e. n_getResolver nd p name = Inl e \<longrightarrow> resolveENS nd c name = Inl e)
          \<and> (n_getResolver nd p name = Inr None \<longrightarrow>
                resolveENS nd c name
                  = Inr \<lparr>ens_name = Some name, ens_address = or_undefined address,
                         ens_resolver = None, ens_avatar = None\<rparr>)
          \<and> (\<forall>r. n_getResolver nd p name = Inr (Some r) \<longrightarrow>
                (\<forall>e. rv_getAddress r = Inl e \<longrightarrow> resolveENS nd c name = Inl e)
                \<and> (\<forall>a. rv_getAddress r = Inr a \<longrightarrow>
                      resolveENS nd c name
                        = Inr \<lparr>ens_name = Some name, ens_address = or_undefined address,
                               ens_resolver = Some a,
                               ens_avatar = (case rv_getAvatar r of
                                               Inl e \<Rightarrow> None
                                             | Inr avatar \<Rightarrow> or_undefined avatar)\<rparr>)))"
  using assms
  by (auto simp: resolveENS_def Let_def or_undefined_def split: sum.splits option.splits)

lemma sample_resolver_rejected:
  "n_getResolver no_resolver_node (sample_provider ''mainnet'') ''vitalik.eth''
     = Inl (External ''could not detect network'')"
  by (simp add: no_resolver_node_def)

lemma sample_name_resolved:
  "n_resolveName no_resolver_node (sample_provider ''mainnet'') ''vitalik.eth''
     = Inr (Some ''0xd8dA6BF26964aF9D7eEd9e03E53415D37aA96045'')"
  by (simp add: no_resolver_node_def sample_node_def)

text \<open>
  The claim as stated fails: the address lookup answers, the resolver lookup is rejected,
  and the whole call fails.
\<close>

theorem resolver_failure_fails_call:
  "n_resolveName no_resolver_node (sample_provider ''mainnet'') ''vitalik.eth''
     = Inr (Some ''0xd8dA6BF26964aF9D7eEd9e03E53415D37aA96045'')
   \<and> n_getResolver no_resolver_node (sample_provider ''mainnet'') ''vitalik.eth''
       = Inl (External ''could not detect network'')
   \<and> resolveENS no_resolver_node sample_client ''vitalik.eth''
       = Inl (External ''could not detect network'')"
proof -
  have "resolveENS no_resolver_node sample_client ''vitalik.eth''
       = Inl (External ''could not detect network'')"
    by (simp add: resolveENS_def sample_client_provider sample_name_resolved
        sample_resolver_rejected)
  then show ?thesis by (intro conjI sample_name_resolved sample_resolver_rejected)
qed

lemma sample_node_name:
  "n_resolveName sample_node (sample_provider ''mainnet'') ''vitalik.eth''
     = Inr (Some ''0xd8dA6BF26964aF9D7eEd9e03E53415D37aA96045'')"
  by (simp add: sample_node_def)

lemma sample_node_resolver:
  "n_getResolver sample_node (sample_provider ''mainnet'') ''vitalik.eth''
     = Inr (Some \<lparr>rv_getAddress = Inr ''0x231b0Ee14048e9dCcD1d247744d114a4EB5E8E63'',
                   rv_getAvatar = Inl (External ''missing revert data'')\<rparr>)"
  by (simp add: sample_node_def)

theorem resolveENS_best_effort_avatar_only_witness:
  "getProvider sample_client None = Inr (sample_provider ''mainnet'')
   \<and> n_resolveName sample_node (sample_provider ''mainnet'') ''vitalik.eth''
       = Inr (Some ''0xd8dA6BF26964aF9D7eEd9e03E53415D37aA96045'')
   \<and> n_getResolver sample_node (sample_provider ''mainnet'') ''vitalik.eth''
       = Inr (Some \<lparr>rv_getAddress = Inr ''0x231b0Ee14048e9dCcD1d247744d114a4EB5E8E63'',
                     rv_getAvatar = Inl (External ''missing revert data'')\<rparr>)
   \<and> resolveENS sample_node sample_client ''vitalik.eth''
       = Inr \<lparr>ens_name = Some ''vitalik.eth'',
              ens_address = Some ''0xd8dA6BF26964aF9D7eEd9e03E53415D37aA96045'',
              ens_resolver = Some ''0x231b0Ee14048e9dCcD1d247744d114a4EB5E8E63'',
              ens_avatar = None\<rparr>
   \<and> n_getResolver no_resolver_node (sample_provider ''mainnet'') ''vitalik.eth''
       = Inl (External ''could not detect network'')
   \<and> resolveENS no_resolver_node sample_client ''vitalik.eth''
       = Inl (External ''could not detect network'')"
proof -
  let ?r = "\<lparr>rv_getAddress = Inr ''0x231b0Ee14048e9dCcD1d247744d114a4EB5E8E63'',
             rv_getAvatar = Inl (External ''missing revert data'')\<rparr>"
  note t = resolveENS_best_effort_avatar_only [OF sample_client_provider,
      where nd = sample_node and name = "''vitalik.eth''"]
  note t1 = mp [OF spec [OF conjunct2 [OF t]] sample_node_name]
  note t2 = mp [OF spec [OF conjunct2 [OF conjunct2 [OF t1]]] sample_node_resolver]
  have "rv_getAddress ?r = Inr ''0x231b0Ee14048e9dCcD1d247744d114a4EB5E8E63''" by simp
  note t3 = mp [OF spec [OF conjunct2 [OF t2]] this]
  have ok: "resolveENS sample_node sample_client ''vitalik.eth''
       = Inr \<lparr>ens_name = Some ''vitalik.eth'',
              ens_address = Some ''0xd8dA6BF26964aF9D7eEd9e03E53415D37aA96045'',
              ens_resolver = Some ''0x231b0Ee14048e9dCcD1d247744d114a4EB5E8E63'',
              ens_avatar = None\<rparr>"
    using t3 by (simp add: or_undefined_def truthy_def)
  note u = resolveENS_best_effort_avatar_only [OF sample_client_provider,
      where nd = no_resolver_node and name = "''vitalik.eth''"]
  note u1 = mp [OF spec [OF conjunct2 [OF u]] sample_name_resolved]
  have bad: "resolveENS no_resolver_node sample_client ''vitalik.eth''
       = Inl (External ''could not detect network'')"
    by (rule mp [OF spec [OF conjunct1 [OF u1]] sample_resolver_rejected])
  show ?thesis
    by (intro conjI sample_client_provider sample_node_name sample_node_resolver ok
        sample_resolver_rejected bad)
qed

section \<open>Contracts\<close>



section \<open>The identity table of a constructed client\<close>

text \<open>
  The hypotheses on the identity table used above (distinct keys, identities stored under
  their own address) hold of every client the constructor returns and are kept by
  \<open>switchNetwork\<close>.
\<close>

lemma update_keyed:
  assumes "keyed_by_address ws"
  shows "keyed_by_address (AList.update (w_address w) (connect w p) ws)"
proof -
  have d: "distinct (map fst (AList.update (w_address w) (connect w p) ws))"
    using assms by (simp add: keyed_by_address_def AList.distinct_update)
  have "set (AList.update k v al) \<subseteq> insert (k, v) (set al)" for k :: string and v :: wallet and al
    by (induction al) auto
  then have "\<forall>aw \<in> set (AList.update (w_address w) (connect w p) ws).
      fst aw = w_address (snd aw)"
    using assms by (fastforce simp: keyed_by_address_def list_all_iff connect_def)
  with d show ?thesis by (simp add: keyed_by_address_def list_all_iff)
qed

lemma insert_wallets_keyed:
  "keyed_by_address ws \<Longrightarrow> keyed_by_address (insert_wallets p new ws)"
proof (induction new arbitrary: ws)
  case Nil
  then show ?case by (simp add: insert_wallets_def)
next
  case (Cons w new)
  from Cons.IH [OF update_keyed [OF Cons.prems, of w p]] show ?case
    by (simp add: insert_wallets_def)
qed

lemma fold_key_step_keyed:
  "keyed_by_address ws \<Longrightarrow> keyed_by_address (fold (key_step lib p) keys ws)"
proof (induction keys arbitrary: ws)
  case Nil
  then show ?case by simp
next
  case (Cons k keys)
  have "keyed_by_address (key_step lib p k ws)"
    using Cons.prems update_keyed by (simp add: key_step_def split: sum.splits)
  from Cons.IH [OF this] show ?case by simp
qed

lemma constructor_keyed:
  assumes "constructor lib cfg = Inr c"
  shows "keyed_by_address (c_wallets c)"
proof -
  let ?c0 = "initializeProviders lib (new_client cfg)"
  from assms obtain p where c: "c = init_from_mnemonic lib p (init_from_keys lib p ?c0)"
    by (auto simp: constructor_outcome split: option.splits)
  have "c_wallets ?c0 = []" by (simp add: new_client_def)
  then have 0: "keyed_by_address (c_wallets ?c0)" by (simp add: keyed_by_address_def)
  have 1: "keyed_by_address (c_wallets (init_from_keys lib p ?c0))"
  proof (cases "cfg_privateKeys (c_config ?c0)")
    case None
    then show ?thesis using 0 by (simp add: init_from_keys_def)
  next
    case (Some keys)
    then show ?thesis using fold_key_step_keyed [OF 0] by (simp add: init_from_keys_wallets)
  qed
  have "keyed_by_address (c_wallets (init_from_mnemonic lib p d))"
    if "keyed_by_address (c_wallets d)" for d
    using that insert_wallets_keyed
    by (simp add: init_from_mnemonic_def init_hd_wallets split: option.splits)
  from this [OF 1] show ?thesis by (simp add: c)
qed

lemma switchNetwork_keyed:
  assumes "keyed_by_address (c_wallets c)"
  shows "keyed_by_address (c_wallets (snd (switchNetwork c n)))"
proof (cases "c_providers c n")
  case None
  then show ?thesis using assms by (simp add: switchNetwork_def)
next
  case (Some p)
  from assms have d: "distinct (map fst (c_wallets c))" by (simp add: keyed_by_address_def)
  have "c_wallets (snd (switchNetwork c n))
      = map (\<lambda>aw. (fst aw, (snd aw)\<lparr>w_provider := Some p\<rparr>)) (c_wallets c)"
    using switchNetwork_def getProvider_current rebind_map [OF d] Some
    by (simp add: switchNetwork_def getProvider_current logger_def connect_def)
  then show ?thesis
    using assms by (simp add: keyed_by_address_def list_all_iff comp_def)
qed

end
